theory Spec2Isabelle
  imports Main "HOL-Library.Word" "HOL-Library.Sublist"
begin

section \<open>Go strings\<close>

text \<open>
  A Go string is a sequence of bytes, and \<open>len\<close> counts bytes: it is a \<open>string\<close> here
  (a list of 8-bit characters) and \<open>len\<close> is \<open>length\<close>.

  \<open>strings.TrimSpace\<close> (standard library) removes leading and trailing white space as
  defined by Unicode. On the bytes of the string this is the removal of every leading and
  every trailing occurrence of the UTF-8 encoding of a code point with the White_Space
  property: U+0009..U+000D, U+0020, U+0085, U+00A0, U+1680, U+2000..U+200A, U+2028, U+2029,
  U+202F, U+205F, U+3000.
\<close>

definition space_seqs :: "string list" where
  "space_seqs =
    [[CHR 0x09], [CHR 0x0A], [CHR 0x0B], [CHR 0x0C], [CHR 0x0D], [CHR 0x20],
     [CHR 0xC2, CHR 0x85], [CHR 0xC2, CHR 0xA0],
     [CHR 0xE1, CHR 0x9A, CHR 0x80],
     [CHR 0xE2, CHR 0x80, CHR 0x80], [CHR 0xE2, CHR 0x80, CHR 0x81],
     [CHR 0xE2, CHR 0x80, CHR 0x82], [CHR 0xE2, CHR 0x80, CHR 0x83],
     [CHR 0xE2, CHR 0x80, CHR 0x84], [CHR 0xE2, CHR 0x80, CHR 0x85],
     [CHR 0xE2, CHR 0x80, CHR 0x86], [CHR 0xE2, CHR 0x80, CHR 0x87],
     [CHR 0xE2, CHR 0x80, CHR 0x88], [CHR 0xE2, CHR 0x80, CHR 0x89],
     [CHR 0xE2, CHR 0x80, CHR 0x8A],
     [CHR 0xE2, CHR 0x80, CHR 0xA8], [CHR 0xE2, CHR 0x80, CHR 0xA9],
     [CHR 0xE2, CHR 0x80, CHR 0xAF],
     [CHR 0xE2, CHR 0x81, CHR 0x9F],
     [CHR 0xE3, CHR 0x80, CHR 0x80]]"

text \<open>The white-space encoding a string starts with, if any.\<close>

definition space_prefix :: "string list \<Rightarrow> string \<Rightarrow> string option" where
  "space_prefix seqs s = find (\<lambda>p. p \<noteq> [] \<and> prefix p s) seqs"

function trim_prefixes :: "string list \<Rightarrow> string \<Rightarrow> string" where
  "trim_prefixes seqs s =
     (case space_prefix seqs s of
        None \<Rightarrow> s
      | Some p \<Rightarrow> trim_prefixes seqs (drop (length p) s))"
  by pat_completeness auto
termination
proof (relation "measure (\<lambda>(seqs, s). length s)")
  show "wf (measure (\<lambda>(seqs, s). length s))" by simp
next
  fix seqs :: "string list" and s p :: string
  assume "space_prefix seqs s = Some p"
  then have "p \<noteq> []" and "prefix p s"
    by (auto simp: space_prefix_def find_Some_iff)
  then have "s \<noteq> []" by auto
  with \<open>p \<noteq> []\<close> show "((seqs, drop (length p) s), (seqs, s)) \<in> measure (\<lambda>(seqs, s). length s)"
    by simp
qed

definition TrimLeft :: "string \<Rightarrow> string" where
  "TrimLeft s = trim_prefixes space_seqs s"

definition TrimRight :: "string \<Rightarrow> string" where
  "TrimRight s = rev (trim_prefixes (map rev space_seqs) (rev s))"

definition TrimSpace :: "string \<Rightarrow> string" where
  "TrimSpace s = TrimRight (TrimLeft s)"


section \<open>Agent authentication and auto-provisioning (service/rpc/auth.go)\<close>

type_synonym uint64 = "64 word"

text \<open>
  The storage rows and in-memory tables the handler reads and writes. Of each row only the
  columns the handler sets or compares are kept. \<open>model.RoleAdmin\<close> is declared outside
  the shown sources; the role is a two-valued type here.
\<close>

datatype Role = RoleAdmin | RoleMember

record UserInfo =
  ui_Role :: Role

record ServerGroup =
  sg_ID :: uint64
  sg_Name :: string
  sg_UserID :: uint64

record Server =
  s_ID :: uint64
  s_UUID :: string
  s_Name :: string
  s_UserID :: uint64

record ServerGroupServer =
  sgs_UserID :: uint64
  sgs_ServerGroupId :: uint64
  sgs_ServerId :: uint64

text \<open>
  The messages of the handler's errors are Chinese text; each is a constructor here:
  \<open>MetadataFailed\<close> (line 26), \<open>ClientAuthFailed\<close> (lines 35 and 45),
  \<open>ClientIDInvalid\<close> (line 58, "must be 1-64 characters"), \<open>GroupNotExist\<close> (line 92),
  \<open>GroupQueryFailed\<close> (lines 94 and 100), \<open>GroupNotExistOrNoAccess\<close> (line 97) and
  \<open>ErrText\<close> for \<open>err.Error()\<close> of the failed transaction (line 142).
  \<open>IndexPanic\<close> is the run-time panic of \<open>value[0]\<close> on an empty value list.
\<close>

datatype message =
    MetadataFailed
  | ClientAuthFailed
  | ClientIDInvalid
  | GroupNotExist
  | GroupQueryFailed
  | GroupNotExistOrNoAccess
  | ErrText string

datatype error = Unauthenticated message | IndexPanic

datatype dberror = ErrRecordNotFound | ErrOther string

text \<open>The calls the handler makes to its collaborators, in the order it makes them.\<close>

datatype event =
    EvBlockIP string
  | EvUnblockIP string
  | EvQueryGroup string "uint64 option"
  | EvPetname
  | EvTransaction
  | EvLog
  | EvInitServer uint64
  | EvUpdate string uint64

text \<open>
  What the outside decides during one call: the name \<open>petname.Generate\<close> draws, the
  failures of the storage layer other than "record not found", and the primary key the
  storage layer assigns to a created server row.
\<close>

record env =
  petname_Generate :: string
  scoped_query_err :: "string option"
  unscoped_query_err :: "string option"
  create_server :: "string + uint64"
  create_member_err :: "string option"
  commit_err :: "string option"

record world =
  AgentSecretToUserId :: "string \<rightharpoonup> uint64"
  UserInfoMap :: "uint64 \<rightharpoonup> UserInfo"
  uuidToID :: "string \<rightharpoonup> uint64"
  serverList :: "uint64 \<rightharpoonup> Server"
  server_groups :: "ServerGroup list"
  servers :: "Server list"
  server_group_servers :: "ServerGroupServer list"
  blocked :: "string set"
  trace :: "event list"

record ctx =
  ctx_md :: "(string \<rightharpoonup> string list) option"
  ctx_realIP :: "string option"

definition emit :: "event \<Rightarrow> world \<Rightarrow> world" where
  "emit ev w = w\<lparr>trace := trace w @ [ev]\<rparr>"

text \<open>
  Modelled from the spec: \<open>model.BlockIP\<close> and \<open>model.UnblockIP\<close> are not in the shown
  sources. The abuse-mitigation layer "blocks/unblocks an origin address": the block list
  is a set of addresses, blocking inserts and unblocking removes.
\<close>

definition BlockIP :: "string \<Rightarrow> world \<Rightarrow> world" where
  "BlockIP ip w = emit (EvBlockIP ip) (w\<lparr>blocked := insert ip (blocked w)\<rparr>)"

definition UnblockIP :: "string \<Rightarrow> world \<Rightarrow> world" where
  "UnblockIP ip w = emit (EvUnblockIP ip) (w\<lparr>blocked := blocked w - {ip}\<rparr>)"

text \<open>
  Modelled from the spec: \<open>ServerShared.UUIDToID\<close>, \<open>model.InitServer\<close> and
  \<open>ServerShared.Update\<close> are not in the shown sources. The Identity Cache maps a UUID to
  its numeric identity; \<open>Update\<close> registers the new mapping and the in-memory record.
\<close>

definition UUIDToID :: "world \<Rightarrow> string \<Rightarrow> uint64 option" where
  "UUIDToID w uuid = uuidToID w uuid"

definition InitServer :: "Server \<Rightarrow> world \<Rightarrow> world" where
  "InitServer s w = emit (EvInitServer (s_ID s)) w"

definition Update :: "Server \<Rightarrow> string \<Rightarrow> world \<Rightarrow> world" where
  "Update s uuid w =
     emit (EvUpdate uuid (s_ID s))
       (w\<lparr>serverList := (serverList w)(s_ID s \<mapsto> s), uuidToID := (uuidToID w)(uuid \<mapsto> s_ID s)\<rparr>)"

text \<open>
  \<open>var x string; if value, ok := md[k]; ok { x = strings.TrimSpace(value[0]) }\<close>:
  the empty string when the key is absent, the trimmed first value otherwise.
\<close>

definition mdValue :: "(string \<rightharpoonup> string list) \<Rightarrow> string \<Rightarrow> error + string" where
  "mdValue m k =
     (case m k of
        None \<Rightarrow> Inr []
      | Some [] \<Rightarrow> Inl IndexPanic
      | Some (v # _) \<Rightarrow> Inr (TrimSpace v))"

text \<open>The metadata with every value trimmed of surrounding white space.\<close>

definition trimmed :: "(string \<rightharpoonup> string list) \<Rightarrow> (string \<rightharpoonup> string list)" where
  "trimmed m = (\<lambda>k. map_option (map TrimSpace) (m k))"

text \<open>
  \<open>DB.Where(...).First(&row).Error\<close>: the first matching row, \<open>ErrRecordNotFound\<close> when
  there is none, or the failure the storage layer reports.
\<close>

definition First :: "string option \<Rightarrow> ('a \<Rightarrow> bool) \<Rightarrow> 'a list \<Rightarrow> dberror + 'a" where
  "First fault P rows =
     (case fault of
        Some err \<Rightarrow> Inl (ErrOther err)
      | None \<Rightarrow> (case find P rows of None \<Rightarrow> Inl ErrRecordNotFound | Some r \<Rightarrow> Inr r))"

text \<open>Lines 75 to 106: the group identity for the optional group name (0 when none).\<close>

definition resolveGroup ::
  "(string \<rightharpoonup> string list) \<Rightarrow> env \<Rightarrow> uint64 \<Rightarrow> world \<Rightarrow> (error + uint64) \<times> world" where
  "resolveGroup m e userId w =
     (case mdValue m ''server_group_name'' of
        Inl x \<Rightarrow> (Inl x, w)
      | Inr groupName \<Rightarrow>
          if groupName = [] then (Inr 0, w)
          else
            let w1 = emit (EvQueryGroup groupName (Some userId)) w in
            (case First (scoped_query_err e)
                    (\<lambda>g. sg_Name g = groupName \<and> sg_UserID g = userId) (server_groups w) of
               Inr g \<Rightarrow> (Inr (sg_ID g), w1)
             | Inl (ErrOther _) \<Rightarrow> (Inl (Unauthenticated GroupQueryFailed), w1)
             | Inl ErrRecordNotFound \<Rightarrow>
                 if (case UserInfoMap w userId of
                       None \<Rightarrow> False
                     | Some userInfo \<Rightarrow> ui_Role userInfo = RoleAdmin)
                 then
                   let w2 = emit (EvQueryGroup groupName None) w1 in
                   (case First (unscoped_query_err e)
                           (\<lambda>g. sg_Name g = groupName) (server_groups w) of
                      Inr g \<Rightarrow> (Inr (sg_ID g), w2)
                    | Inl ErrRecordNotFound \<Rightarrow> (Inl (Unauthenticated GroupNotExist), w2)
                    | Inl (ErrOther _) \<Rightarrow> (Inl (Unauthenticated GroupQueryFailed), w2))
                 else (Inl (Unauthenticated GroupNotExistOrNoAccess), w1)))"

text \<open>
  Lines 118 to 139, \<open>DB.Transaction\<close>: the server row, then the membership row when
  \<open>serverGroupID > 0\<close>, then the commit. A failure of any of the three rolls back: the
  tables are those of before the transaction.
\<close>

definition Commit :: "env \<Rightarrow> Server \<Rightarrow> world \<Rightarrow> world \<Rightarrow> (string + Server) \<times> world" where
  "Commit e s w0 w =
     (case commit_err e of
        Some err \<Rightarrow> (Inl err, w0)
      | None \<Rightarrow> (Inr s, w))"

definition Transaction ::
  "env \<Rightarrow> Server \<Rightarrow> uint64 \<Rightarrow> uint64 \<Rightarrow> world \<Rightarrow> (string + Server) \<times> world" where
  "Transaction e s serverGroupID userId w =
     (let w0 = emit EvTransaction w in
      case create_server e of
        Inl err \<Rightarrow> (Inl err, w0)
      | Inr newID \<Rightarrow>
          let s' = s\<lparr>s_ID := newID\<rparr>;
              w1 = w0\<lparr>servers := servers w0 @ [s']\<rparr>
          in
          if 0 < serverGroupID then
            (case create_member_err e of
               Some err \<Rightarrow> (Inl err, w0)
             | None \<Rightarrow>
                 Commit e s' w0
                   (w1\<lparr>server_group_servers := server_group_servers w1 @
                        [\<lparr>sgs_UserID = userId, sgs_ServerGroupId = serverGroupID,
                          sgs_ServerId = s_ID s'\<rparr>]\<rparr>))
          else Commit e s' w0 w1)"

text \<open>Lines 63 to 162: first contact of a UUID.\<close>

definition provision ::
  "(string \<rightharpoonup> string list) \<Rightarrow> env \<Rightarrow> uint64 \<Rightarrow> string \<Rightarrow> world \<Rightarrow> (error + uint64) \<times> world" where
  "provision m e userId clientUUID w =
     (case mdValue m ''server_name'' of
        Inl x \<Rightarrow> (Inl x, w)
      | Inr name \<Rightarrow>
          let (serverName, w1) =
                (if name = [] then (petname_Generate e, emit EvPetname w) else (name, w))
          in
          (case resolveGroup m e userId w1 of
             (Inl x, w2) \<Rightarrow> (Inl x, w2)
           | (Inr serverGroupID, w2) \<Rightarrow>
               let s = \<lparr>s_ID = 0, s_UUID = clientUUID, s_Name = serverName, s_UserID = userId\<rparr>
               in
               (case Transaction e s serverGroupID userId w2 of
                  (Inl err, w3) \<Rightarrow> (Inl (Unauthenticated (ErrText err)), w3)
                | (Inr s', w3) \<Rightarrow>
                    (Inr (s_ID s'), Update s' clientUUID (InitServer s' (emit EvLog w3))))))"

text \<open>Line 38, \<open>ip, _ := ctx.Value(model.CtxKeyRealIP{}).(string)\<close>: empty when absent.\<close>

definition realIP :: "ctx \<Rightarrow> string" where
  "realIP c = (case ctx_realIP c of None \<Rightarrow> [] | Some a \<Rightarrow> a)"

text \<open>Lines 23 to 166.\<close>

definition Check :: "ctx \<Rightarrow> env \<Rightarrow> world \<Rightarrow> (error + uint64) \<times> world" where
  "Check c e w =
     (case ctx_md c of
        None \<Rightarrow> (Inl (Unauthenticated MetadataFailed), w)
      | Some m \<Rightarrow>
          (case mdValue m ''client_secret'' of
             Inl x \<Rightarrow> (Inl x, w)
           | Inr clientSecret \<Rightarrow>
               if clientSecret = [] then (Inl (Unauthenticated ClientAuthFailed), w)
               else
                 let ip = realIP c in
                 (case AgentSecretToUserId w clientSecret of
                    None \<Rightarrow> (Inl (Unauthenticated ClientAuthFailed), BlockIP ip w)
                  | Some userId \<Rightarrow>
                      let w1 = UnblockIP ip w in
                      (case mdValue m ''client_uuid'' of
                         Inl x \<Rightarrow> (Inl x, w1)
                       | Inr clientUUID \<Rightarrow>
                           if clientUUID = [] \<or> length clientUUID > 64
                           then (Inl (Unauthenticated ClientIDInvalid), w1)
                           else
                             (case UUIDToID w1 clientUUID of
                                Some clientID \<Rightarrow> (Inr clientID, w1)
                              | None \<Rightarrow> provision m e userId clientUUID w1)))))"


section \<open>Fallback Geo/ASN lookup with cache and rate limit (package geoip, ip-api client)\<close>

text \<open>
  A \<open>time.Time\<close> is the number of nanoseconds since the Unix epoch and a \<open>time.Duration\<close>
  a number of nanoseconds held in an \<open>int64\<close>. \<open>Time.Sub\<close> saturates at the largest and
  the smallest duration; the subtraction of two durations wraps around.
\<close>

type_synonym Time = int
type_synonym Duration = int

definition maxDuration :: Duration where
  "maxDuration = 2 ^ 63 - 1"

definition minDuration :: Duration where
  "minDuration = - (2 ^ 63)"

definition int64 :: "int \<Rightarrow> int" where
  "int64 x = (x + 2 ^ 63) mod 2 ^ 64 - 2 ^ 63"

definition Sub :: "Time \<Rightarrow> Time \<Rightarrow> Duration" where
  "Sub t u = max minDuration (min maxDuration (t - u))"

definition Second :: Duration where
  "Second = 1000000000"

definition Hour :: Duration where
  "Hour = 3600 * Second"

definition cacheExpiry :: Duration where
  "cacheExpiry = 24 * Hour"

definition minRequestInterval :: Duration where
  "minRequestInterval = 2 * Second"

definition apiBaseURL :: string where
  "apiBaseURL = ''http://ip-api.com/json/''"

text \<open>The fields \<open>Lat\<close> and \<open>Lon\<close> (floating point, never read) are left out.\<close>

record APIResponse =
  Status :: string
  Country :: string
  CountryCode :: string
  Region :: string
  RegionName :: string
  City :: string
  Zip :: string
  Timezone :: string
  ISP :: string
  Org :: string
  AS :: string
  Query :: string

record cacheEntry =
  countryCode :: string
  asn :: string
  timestamp :: Time

datatype http_result = TransportError | Response nat "APIResponse option"

datatype geo_event = GeoSleep Duration | GeoHttpGet Time string

text \<open>
  The trace records each sleep with the duration asked for and each outbound request with
  the clock reading at which \<open>httpClient.Get\<close> is entered; no time passes between two
  statements other than in \<open>time.Sleep\<close> and in the HTTP exchange.

  What the outside decides during one query: by how much a sleep overshoots, how long the
  HTTP exchange takes, and its outcome (a transport error, or a status code with the
  decoded body, \<open>None\<close> when the body does not decode).
\<close>

record geo_env =
  overshoot :: nat
  latency :: nat
  response :: http_result

record geo =
  ipCache :: "string \<rightharpoonup> cacheEntry"
  lastRequestTime :: Time
  clock :: Time
  geo_trace :: "geo_event list"

datatype geo_error =
    InvalidIP
  | RequestFailed
  | BadStatusCode nat
  | DecodeFailed
  | ErrorStatus string
  | ASNNotFound string

definition Since :: "geo \<Rightarrow> Time \<Rightarrow> Duration" where
  "Since g t = Sub (clock g) t"

definition Sleep :: "geo_env \<Rightarrow> Duration \<Rightarrow> geo \<Rightarrow> geo" where
  "Sleep e d g =
     g\<lparr>clock := clock g + max 0 d + int (overshoot e), geo_trace := geo_trace g @ [GeoSleep d]\<rparr>"

definition httpGet :: "geo_env \<Rightarrow> string \<Rightarrow> geo \<Rightarrow> geo" where
  "httpGet e url g =
     g\<lparr>clock := clock g + int (latency e), geo_trace := geo_trace g @ [GeoHttpGet (clock g) url]\<rparr>"

definition getCachedResult :: "geo \<Rightarrow> string \<Rightarrow> string \<times> string \<times> bool" where
  "getCachedResult g ip =
     (case ipCache g ip of
        None \<Rightarrow> ([], [], False)
      | Some entry \<Rightarrow>
          if Since g (timestamp entry) > cacheExpiry then ([], [], False)
          else (countryCode entry, asn entry, True))"

definition setCachedResult :: "string \<Rightarrow> string \<Rightarrow> string \<Rightarrow> geo \<Rightarrow> geo" where
  "setCachedResult ip cc a g =
     g\<lparr>ipCache := (ipCache g)(ip \<mapsto> \<lparr>countryCode = cc, asn = a, timestamp = clock g\<rparr>)\<rparr>"

definition checkRateLimit :: "geo_env \<Rightarrow> geo \<Rightarrow> geo" where
  "checkRateLimit e g =
     (let elapsed = Since g (lastRequestTime g);
          g1 = (if elapsed < minRequestInterval
                then Sleep e (int64 (minRequestInterval - elapsed)) g
                else g)
      in g1\<lparr>lastRequestTime := clock g1\<rparr>)"

text \<open>\<open>strings.SplitN(s, " ", 2)\<close>: the part after the first space, when there is a space.\<close>

definition afterFirstSpace :: "string \<Rightarrow> string option" where
  "afterFirstSpace s =
     (case dropWhile (\<lambda>c. c \<noteq> CHR '' '') s of [] \<Rightarrow> None | _ # rest \<Rightarrow> Some rest)"

text \<open>Lines 315 to 325 (and again 384 to 393): the organization name of a response.\<close>

definition orgOf :: "APIResponse \<Rightarrow> string" where
  "orgOf r =
     (if AS r \<noteq> [] then (case afterFirstSpace (AS r) of Some rest \<Rightarrow> rest | None \<Rightarrow> AS r)
      else if Org r \<noteq> [] then Org r
      else [])"

definition cachedResponse :: "string \<Rightarrow> string \<Rightarrow> string \<Rightarrow> APIResponse" where
  "cachedResponse cc a ipStr =
     \<lparr>Status = ''success'', Country = [], CountryCode = cc, Region = [], RegionName = [],
      City = [], Zip = [], Timezone = [], ISP = [], Org = [], AS = a, Query = ipStr\<rparr>"

text \<open>The IP is \<open>None\<close> when nil, and its textual form (\<open>ip.String()\<close>) otherwise.\<close>

definition queryIPAPI :: "geo_env \<Rightarrow> string option \<Rightarrow> geo \<Rightarrow> (geo_error + APIResponse) \<times> geo" where
  "queryIPAPI e ip g =
     (case ip of
        None \<Rightarrow> (Inl InvalidIP, g)
      | Some ipStr \<Rightarrow>
          (case getCachedResult g ipStr of
             (cc, a, True) \<Rightarrow> (Inr (cachedResponse cc a ipStr), g)
           | (_, _, False) \<Rightarrow>
               let g1 = checkRateLimit e g;
                   g2 = httpGet e (apiBaseURL @ ipStr) g1
               in
               (case response e of
                  TransportError \<Rightarrow> (Inl RequestFailed, g2)
                | Response code body \<Rightarrow>
                    if code \<noteq> 200 then (Inl (BadStatusCode code), g2)
                    else
                      (case body of
                         None \<Rightarrow> (Inl DecodeFailed, g2)
                       | Some result \<Rightarrow>
                           if Status result \<noteq> ''success''
                           then (Inl (ErrorStatus (Status result)), g2)
                           else (Inr result,
                                 setCachedResult ipStr (CountryCode result) (orgOf result) g2)))))"

definition LookupASN :: "geo_env \<Rightarrow> string option \<Rightarrow> geo \<Rightarrow> (geo_error + string) \<times> geo" where
  "LookupASN e ip g =
     (case queryIPAPI e ip g of
        (Inl err, g') \<Rightarrow> (Inl err, g')
      | (Inr result, g') \<Rightarrow>
          if AS result \<noteq> [] then
            (case afterFirstSpace (AS result) of
               Some rest \<Rightarrow> (Inr rest, g')
             | None \<Rightarrow> (Inr (AS result), g'))
          else if Org result \<noteq> [] then (Inr (Org result), g')
          else (Inl (ASNNotFound (case ip of None \<Rightarrow> [] | Some ipStr \<Rightarrow> ipStr)), g'))"

text \<open>
  A run of queries, one after the other, the clock advancing by \<open>gap\<close> between two of
  them: the state after the run.
\<close>

fun queries :: "(nat \<times> geo_env \<times> string option) list \<Rightarrow> geo \<Rightarrow> geo" where
  "queries [] g = g"
| "queries ((gap, e, ip) # rest) g =
     queries rest (snd (queryIPAPI e ip (g\<lparr>clock := clock g + int gap\<rparr>)))"


text \<open>The clock readings of the outbound requests of a trace, oldest first.\<close>

fun requestTimes :: "geo_event list \<Rightarrow> Time list" where
  "requestTimes [] = []"
| "requestTimes (GeoSleep d # evs) = requestTimes evs"
| "requestTimes (GeoHttpGet t url # evs) = t # requestTimes evs"

fun spaced :: "Duration \<Rightarrow> Time list \<Rightarrow> bool" where
  "spaced d [] = True"
| "spaced d [t] = True"
| "spaced d (t # u # ts) = (t + d \<le> u \<and> spaced d (u # ts))"

text \<open>
  What holds of the state between two queries: the rate-limit timestamp is a past reading
  of the clock, no outbound request is later than that timestamp, and the requests made so
  far are spaced.
\<close>

definition rate_inv :: "geo \<Rightarrow> bool" where
  "rate_inv g \<longleftrightarrow>
     lastRequestTime g \<le> clock g
     \<and> list_all (\<lambda>t. t \<le> lastRequestTime g) (requestTimes (geo_trace g))
     \<and> spaced minRequestInterval (requestTimes (geo_trace g))"

text \<open>The zero \<open>time.Time\<close> (1 January of year 1), the initial \<open>lastRequestTime\<close>.\<close>

definition zeroTime :: Time where
  "zeroTime = - 62135596800 * Second"


section \<open>Live state broadcaster (cmd/dashboard/controller/ws.go)\<close>

text \<open>
  The in-memory server is the stored row with its live fields. \<open>model.Host\<close>,
  \<open>model.HostState\<close> and the address pair of \<open>model.GeoIP\<close> are declared outside the
  shown sources: they are the type parameters \<open>'h\<close>, \<open>'st\<close> and \<open>'ip\<close>, and
  \<open>Host.Filter\<close>, \<open>IP.Join\<close> and \<open>json.Marshal\<close> are taken as parameters.
\<close>

record 'ip GeoIPInfo =
  geo_IP :: 'ip
  geo_CountryCode :: string
  geo_ASN :: string

record ('h, 'st, 'ip) LiveServer = Server +
  PublicNote :: string
  DisplayIndex :: int
  Host :: 'h
  State :: 'st
  GeoIP :: "'ip GeoIPInfo option"
  LastActive :: int

record ('h, 'st) StreamServer =
  ss_ID :: uint64
  ss_Name :: string
  ss_PublicNote :: string
  ss_DisplayIndex :: int
  ss_Host :: 'h
  ss_State :: 'st
  ss_CountryCode :: string
  ss_IPAddress :: string
  ss_ASN :: string
  ss_LastActive :: int

record ('h, 'st) StreamServerData =
  ssd_Now :: int
  ssd_Online :: int
  ssd_Servers :: "('h, 'st) StreamServer list"

record ('h, 'st, 'ip, 'b) collab =
  Filter :: "'h \<Rightarrow> 'h"
  Join :: "'ip \<Rightarrow> string"
  Marshal :: "('h, 'st) StreamServerData \<Rightarrow> 'b option"

text \<open>
  What a snapshot reads: the two sorted lists of \<open>ServerShared\<close>, the number of online
  viewers and the Unix time in seconds.
\<close>

record ('h, 'st, 'ip) dash =
  SortedList :: "('h, 'st, 'ip) LiveServer list"
  SortedListForGuest :: "('h, 'st, 'ip) LiveServer list"
  OnlineUserCount :: int
  nowUnix :: int

definition IfOr :: "bool \<Rightarrow> 'a \<Rightarrow> 'a \<Rightarrow> 'a" where
  "IfOr c x y = (if c then x else y)"

text \<open>Lines 171 to 192: the entry of one server.\<close>

definition streamServer ::
  "('h, 'st, 'ip, 'b) collab \<Rightarrow> bool \<Rightarrow> bool \<Rightarrow> ('h, 'st, 'ip) LiveServer \<Rightarrow> ('h, 'st) StreamServer" where
  "streamServer cb withPublicNote authorized server =
     (let (cc, ipAddress, asnOrg) =
            (case GeoIP server of
               None \<Rightarrow> ([], [], [])
             | Some gi \<Rightarrow> (geo_CountryCode gi, Join cb (geo_IP gi), geo_ASN gi))
      in \<lparr>ss_ID = s_ID server,
          ss_Name = s_Name server,
          ss_PublicNote = IfOr withPublicNote (PublicNote server) [],
          ss_DisplayIndex = DisplayIndex server,
          ss_Host = IfOr authorized (Host server) (Filter cb (Host server)),
          ss_State = State server,
          ss_CountryCode = cc,
          ss_IPAddress = ipAddress,
          ss_ASN = asnOrg,
          ss_LastActive = LastActive server\<rparr>)"

text \<open>Lines 162 to 199: the closure handed to \<open>requestGroup.Do\<close>, before marshalling.\<close>

definition serverStats ::
  "('h, 'st, 'ip, 'b) collab \<Rightarrow> bool \<Rightarrow> bool \<Rightarrow> ('h, 'st, 'ip) dash \<Rightarrow> ('h, 'st) StreamServerData" where
  "serverStats cb withPublicNote authorized d =
     (let serverList = (if authorized then SortedList d else SortedListForGuest d)
      in \<lparr>ssd_Now = nowUnix d * 1000,
          ssd_Online = OnlineUserCount d,
          ssd_Servers = map (streamServer cb withPublicNote authorized) serverList\<rparr>)"

text \<open>
  \<open>getServerStat\<close> for a call that is not merged into a computation already in flight:
  \<open>requestGroup.Do\<close> then runs the closure. \<open>None\<close> is the error of \<open>json.Marshal\<close>.
\<close>

definition getServerStat ::
  "('h, 'st, 'ip, 'b) collab \<Rightarrow> bool \<Rightarrow> bool \<Rightarrow> ('h, 'st, 'ip) dash \<Rightarrow> 'b option" where
  "getServerStat cb withPublicNote authorized d =
     Marshal cb (serverStats cb withPublicNote authorized d)"

text \<open>
  The loop of \<open>serverStream\<close> (lines 137 to 154). Each iteration reads the state of the
  dashboard at that moment and meets the outcome of its writes: a tick. The loop returns
  the frames it has written when a write fails, or when the ticks end (the connection
  is still open then). \<open>count\<close> is a Go \<open>int\<close>; it does not overflow within the life
  of a connection and is a natural number here.
\<close>

datatype 'b frame = TextMessage 'b | PingMessage

record ('h, 'st, 'ip) tick =
  tk_dash :: "('h, 'st, 'ip) dash"
  tk_write_ok :: bool
  tk_ping_ok :: bool

fun streamLoop ::
  "('h, 'st, 'ip, 'b) collab \<Rightarrow> bool \<Rightarrow> nat \<Rightarrow> ('h, 'st, 'ip) tick list \<Rightarrow> 'b frame list" where
  "streamLoop cb isMember count [] = []"
| "streamLoop cb isMember count (t # ts) =
     (case getServerStat cb (count = 0) isMember (tk_dash t) of
        None \<Rightarrow> streamLoop cb isMember count ts
      | Some stat \<Rightarrow>
          if \<not> tk_write_ok t then []
          else if (count + 1) mod 4 = 0 then
            (if \<not> tk_ping_ok t then [TextMessage stat]
             else TextMessage stat # PingMessage # streamLoop cb isMember (count + 1) ts)
          else TextMessage stat # streamLoop cb isMember (count + 1) ts)"


section \<open>Sample data\<close>

text \<open>A small installation, used to run the definitions on concrete inputs.\<close>

definition demo_env :: env where
  "demo_env = \<lparr>petname_Generate = ''able-ant'', scoped_query_err = None,
     unscoped_query_err = None, create_server = Inr 8, create_member_err = None,
     commit_err = None\<rparr>"

definition demo_world :: world where
  "demo_world = \<lparr>AgentSecretToUserId = [''s3cret'' \<mapsto> 42, ''adm1n'' \<mapsto> 1],
     UserInfoMap = [42 \<mapsto> \<lparr>ui_Role = RoleMember\<rparr>, 1 \<mapsto> \<lparr>ui_Role = RoleAdmin\<rparr>],
     uuidToID = [''known-1'' \<mapsto> 7],
     serverList = Map.empty,
     server_groups = [\<lparr>sg_ID = 3, sg_Name = ''prod'', sg_UserID = 1\<rparr>,
                      \<lparr>sg_ID = 4, sg_Name = ''web'', sg_UserID = 42\<rparr>],
     servers = [], server_group_servers = [],
     blocked = {''10.0.0.1''}, trace = []\<rparr>"

definition demo_ctx :: "(string \<rightharpoonup> string list) \<Rightarrow> ctx" where
  "demo_ctx m = \<lparr>ctx_md = Some m, ctx_realIP = Some ''10.0.0.1''\<rparr>"

definition demo_geo :: geo where
  "demo_geo = \<lparr>ipCache = [''8.8.8.8'' \<mapsto>
                    \<lparr>countryCode = ''US'', asn = ''Google LLC'', timestamp = 1700000000 * Second\<rparr>],
     lastRequestTime = zeroTime, clock = 1700000000 * Second, geo_trace = []\<rparr>"

definition demo_geo_env :: geo_env where
  "demo_geo_env = \<lparr>overshoot = 1000, latency = 50000000,
     response = Response 200 (Some (cachedResponse ''AU'' ''AS13335 Cloudflare, Inc.'' ''1.1.1.1''))\<rparr>"

section \<open>Properties of trimming\<close>

declare trim_prefixes.simps [simp del]

lemma space_prefix_None_iff:
  "space_prefix seqs s = None \<longleftrightarrow> (\<forall>p\<in>set seqs. p = [] \<or> \<not> prefix p s)"
  by (auto simp: space_prefix_def find_None_iff)

lemma trim_prefixes_fixed:
  "space_prefix seqs s = None \<Longrightarrow> trim_prefixes seqs s = s"
  by (subst trim_prefixes.simps) simp

lemma trim_prefixes_step:
  "space_prefix seqs s = Some p \<Longrightarrow> trim_prefixes seqs s = trim_prefixes seqs (drop (length p) s)"
  by (subst trim_prefixes.simps) simp

lemma space_prefix_trim_prefixes:
  "space_prefix seqs (trim_prefixes seqs s) = None"
proof (induction seqs s rule: trim_prefixes.induct)
  case (1 seqs s)
  show ?case
  proof (cases "space_prefix seqs s")
    case None
    then show ?thesis by (simp add: trim_prefixes_fixed)
  next
    case (Some p)
    with "1.IH" show ?thesis by (simp add: trim_prefixes_step)
  qed
qed

lemma suffix_trim_prefixes: "suffix (trim_prefixes seqs s) s"
proof (induction seqs s rule: trim_prefixes.induct)
  case (1 seqs s)
  show ?case
  proof (cases "space_prefix seqs s")
    case None
    then show ?thesis by (simp add: trim_prefixes_fixed)
  next
    case (Some p)
    with "1.IH" have "suffix (trim_prefixes seqs (drop (length p) s)) (drop (length p) s)"
      by simp
    then have "suffix (trim_prefixes seqs (drop (length p) s)) s"
      using suffix_drop suffix_order.trans by blast
    with Some show ?thesis by (simp add: trim_prefixes_step)
  qed
qed

lemma space_prefix_of_prefix:
  "space_prefix seqs s = None \<Longrightarrow> prefix t s \<Longrightarrow> space_prefix seqs t = None"
  by (meson prefix_order.trans space_prefix_None_iff)

lemma prefix_TrimRight: "prefix (TrimRight s) s"
  unfolding TrimRight_def using suffix_trim_prefixes [of "map rev space_seqs" "rev s"]
  by (simp add: suffix_to_prefix)

lemma TrimSpace_idem: "TrimSpace (TrimSpace s) = TrimSpace s"
proof -
  let ?t = "TrimSpace s"
  have l: "space_prefix space_seqs ?t = None"
    unfolding TrimSpace_def
    by (rule space_prefix_of_prefix [OF _ prefix_TrimRight])
       (simp add: TrimLeft_def space_prefix_trim_prefixes)
  have r: "space_prefix (map rev space_seqs) (rev ?t) = None"
    by (simp add: TrimSpace_def TrimRight_def space_prefix_trim_prefixes)
  have "TrimLeft ?t = ?t" using l by (simp add: TrimLeft_def trim_prefixes_fixed)
  moreover have "TrimRight ?t = ?t" using r by (simp add: TrimRight_def trim_prefixes_fixed)
  ultimately show ?thesis by (simp add: TrimSpace_def [of ?t])
qed

lemma space_prefix_space_seq:
  assumes "p \<in> set space_seqs"
  shows "space_prefix space_seqs (p @ r) = Some p"
  using assms
  apply (simp only: space_seqs_def list.set insert_iff empty_iff)
  apply (elim disjE)
  apply (simp_all add: space_prefix_def)
  done

lemma trim_prefixes_space_seq:
  "p \<in> set space_seqs \<Longrightarrow> trim_prefixes space_seqs (p @ r) = trim_prefixes space_seqs r"
  using space_prefix_space_seq [of p r] by (subst trim_prefixes.simps) simp

lemma TrimLeft_concat:
  "set ws \<subseteq> set space_seqs \<Longrightarrow> TrimLeft (concat ws @ r) = TrimLeft r"
  by (induction ws) (auto simp: TrimLeft_def trim_prefixes_space_seq)

lemma TrimRight_Nil: "TrimRight [] = []"
  by (simp add: TrimRight_def trim_prefixes_fixed space_prefix_def space_seqs_def)

lemma TrimLeft_Nil: "TrimLeft [] = []"
  by (simp add: TrimLeft_def trim_prefixes_fixed space_prefix_def space_seqs_def)

lemma TrimSpace_whitespace:
  "set ws \<subseteq> set space_seqs \<Longrightarrow> TrimSpace (concat ws) = []"
  using TrimLeft_concat [of ws "[]"] by (simp add: TrimSpace_def TrimLeft_Nil TrimRight_Nil)

section \<open>Properties of the authentication handler\<close>

subsection \<open>What each collaborator call changes\<close>

lemma emit_simps [simp]:
  "AgentSecretToUserId (emit ev w) = AgentSecretToUserId w"
  "UserInfoMap (emit ev w) = UserInfoMap w"
  "uuidToID (emit ev w) = uuidToID w"
  "serverList (emit ev w) = serverList w"
  "server_groups (emit ev w) = server_groups w"
  "servers (emit ev w) = servers w"
  "server_group_servers (emit ev w) = server_group_servers w"
  "blocked (emit ev w) = blocked w"
  "trace (emit ev w) = trace w @ [ev]"
  by (simp_all add: emit_def)

lemma UnblockIP_simps [simp]:
  "AgentSecretToUserId (UnblockIP ip w) = AgentSecretToUserId w"
  "UserInfoMap (UnblockIP ip w) = UserInfoMap w"
  "uuidToID (UnblockIP ip w) = uuidToID w"
  "serverList (UnblockIP ip w) = serverList w"
  "server_groups (UnblockIP ip w) = server_groups w"
  "servers (UnblockIP ip w) = servers w"
  "server_group_servers (UnblockIP ip w) = server_group_servers w"
  "blocked (UnblockIP ip w) = blocked w - {ip}"
  "trace (UnblockIP ip w) = trace w @ [EvUnblockIP ip]"
  by (simp_all add: UnblockIP_def)

lemma BlockIP_simps [simp]:
  "AgentSecretToUserId (BlockIP ip w) = AgentSecretToUserId w"
  "UserInfoMap (BlockIP ip w) = UserInfoMap w"
  "uuidToID (BlockIP ip w) = uuidToID w"
  "serverList (BlockIP ip w) = serverList w"
  "server_groups (BlockIP ip w) = server_groups w"
  "servers (BlockIP ip w) = servers w"
  "server_group_servers (BlockIP ip w) = server_group_servers w"
  "blocked (BlockIP ip w) = insert ip (blocked w)"
  "trace (BlockIP ip w) = trace w @ [EvBlockIP ip]"
  by (simp_all add: BlockIP_def)

lemma InitServer_simps [simp]:
  "AgentSecretToUserId (InitServer s w) = AgentSecretToUserId w"
  "UserInfoMap (InitServer s w) = UserInfoMap w"
  "uuidToID (InitServer s w) = uuidToID w"
  "serverList (InitServer s w) = serverList w"
  "server_groups (InitServer s w) = server_groups w"
  "servers (InitServer s w) = servers w"
  "server_group_servers (InitServer s w) = server_group_servers w"
  "blocked (InitServer s w) = blocked w"
  "trace (InitServer s w) = trace w @ [EvInitServer (s_ID s)]"
  by (simp_all add: InitServer_def)

lemma Update_simps [simp]:
  "AgentSecretToUserId (Update s u w) = AgentSecretToUserId w"
  "UserInfoMap (Update s u w) = UserInfoMap w"
  "uuidToID (Update s u w) = (uuidToID w)(u \<mapsto> s_ID s)"
  "serverList (Update s u w) = (serverList w)(s_ID s \<mapsto> s)"
  "server_groups (Update s u w) = server_groups w"
  "servers (Update s u w) = servers w"
  "server_group_servers (Update s u w) = server_group_servers w"
  "blocked (Update s u w) = blocked w"
  "trace (Update s u w) = trace w @ [EvUpdate u (s_ID s)]"
  by (simp_all add: Update_def)

text \<open>Past the secret, the handler is the UUID check, the cache lookup and provisioning.\<close>

lemma Check_known_secret:
  assumes "ctx_md c = Some m" and "mdValue m ''client_secret'' = Inr sec" and "sec \<noteq> []"
    and "AgentSecretToUserId w sec = Some uid"
  shows "Check c e w =
     (case mdValue m ''client_uuid'' of
        Inl x \<Rightarrow> (Inl x, UnblockIP (realIP c) w)
      | Inr u \<Rightarrow>
          if u = [] \<or> 64 < length u
          then (Inl (Unauthenticated ClientIDInvalid), UnblockIP (realIP c) w)
          else (case uuidToID w u of
                  Some cid \<Rightarrow> (Inr cid, UnblockIP (realIP c) w)
                | None \<Rightarrow> provision m e uid u (UnblockIP (realIP c) w)))"
  using assms by (simp add: Check_def UUIDToID_def Let_def split: sum.splits)


subsection \<open>Group resolution\<close>

lemma resolveGroup_frame:
  "AgentSecretToUserId (snd (resolveGroup m e uid w)) = AgentSecretToUserId w"
  "UserInfoMap (snd (resolveGroup m e uid w)) = UserInfoMap w"
  "uuidToID (snd (resolveGroup m e uid w)) = uuidToID w"
  "serverList (snd (resolveGroup m e uid w)) = serverList w"
  "server_groups (snd (resolveGroup m e uid w)) = server_groups w"
  "servers (snd (resolveGroup m e uid w)) = servers w"
  "server_group_servers (snd (resolveGroup m e uid w)) = server_group_servers w"
  "blocked (snd (resolveGroup m e uid w)) = blocked w"
  by (simp_all add: resolveGroup_def Let_def split: sum.splits dberror.splits)

lemma fst_resolveGroup_cong:
  assumes "server_groups w' = server_groups w" and "UserInfoMap w' = UserInfoMap w"
  shows "fst (resolveGroup m e uid w') = fst (resolveGroup m e uid w)"
  using assms by (simp add: resolveGroup_def Let_def split: sum.splits dberror.splits)

subsection \<open>The transaction and provisioning\<close>

lemma Transaction_frame:
  "AgentSecretToUserId (snd (Transaction e s gid uid w)) = AgentSecretToUserId w"
  "UserInfoMap (snd (Transaction e s gid uid w)) = UserInfoMap w"
  "uuidToID (snd (Transaction e s gid uid w)) = uuidToID w"
  "serverList (snd (Transaction e s gid uid w)) = serverList w"
  "server_groups (snd (Transaction e s gid uid w)) = server_groups w"
  "blocked (snd (Transaction e s gid uid w)) = blocked w"
  by (simp_all add: Transaction_def Commit_def Let_def split: sum.splits option.splits)

lemma Transaction_Inl:
  assumes "fst (Transaction e s gid uid w) = Inl err"
  shows "snd (Transaction e s gid uid w) = emit EvTransaction w"
  using assms
  by (simp add: Transaction_def Commit_def Let_def split: sum.splits option.splits if_splits)

lemma Transaction_Inr:
  assumes "fst (Transaction e s gid uid w) = Inr s'"
  shows "\<exists>newID. create_server e = Inr newID \<and> s' = s\<lparr>s_ID := newID\<rparr>"
    and "servers (snd (Transaction e s gid uid w)) = servers w @ [s']"
    and "server_group_servers (snd (Transaction e s gid uid w)) =
           server_group_servers w @
           (if 0 < gid
            then [\<lparr>sgs_UserID = uid, sgs_ServerGroupId = gid, sgs_ServerId = s_ID s'\<rparr>]
            else [])"
  using assms
  by (auto simp: Transaction_def Commit_def Let_def split: sum.splits option.splits if_splits)

text \<open>The transaction fails exactly when one of its three steps does.\<close>

lemma Transaction_fails_iff:
  "(\<exists>err. fst (Transaction e s gid uid w) = Inl err) \<longleftrightarrow>
     (\<exists>err. create_server e = Inl err) \<or> (0 < gid \<and> create_member_err e \<noteq> None)
       \<or> commit_err e \<noteq> None"
  by (auto simp: Transaction_def Commit_def Let_def split: sum.splits option.splits if_splits)

lemma provision_unfold:
  "provision m e uid u w =
     (case mdValue m ''server_name'' of
        Inl x \<Rightarrow> (Inl x, w)
      | Inr name \<Rightarrow>
          let w1 = (if name = [] then emit EvPetname w else w);
              serverName = (if name = [] then petname_Generate e else name);
              rg = resolveGroup m e uid w1
          in (case fst rg of
                Inl x \<Rightarrow> (Inl x, snd rg)
              | Inr gid \<Rightarrow>
                  let tx = Transaction e
                        \<lparr>s_ID = 0, s_UUID = u, s_Name = serverName, s_UserID = uid\<rparr>
                        gid uid (snd rg)
                  in (case fst tx of
                        Inl err \<Rightarrow> (Inl (Unauthenticated (ErrText err)), snd tx)
                      | Inr s' \<Rightarrow>
                          (Inr (s_ID s'), Update s' u (InitServer s' (emit EvLog (snd tx)))))))"
  by (simp add: provision_def Let_def split: sum.splits prod.splits)

lemma provision_frame:
  "AgentSecretToUserId (snd (provision m e uid u w)) = AgentSecretToUserId w"
  "UserInfoMap (snd (provision m e uid u w)) = UserInfoMap w"
  "server_groups (snd (provision m e uid u w)) = server_groups w"
  "blocked (snd (provision m e uid u w)) = blocked w"
  by (simp_all add: provision_unfold Let_def Transaction_frame resolveGroup_frame
      split: sum.splits)

lemma provision_Inl:
  assumes "fst (provision m e uid u w) = Inl err"
  shows "servers (snd (provision m e uid u w)) = servers w"
    and "server_group_servers (snd (provision m e uid u w)) = server_group_servers w"
    and "uuidToID (snd (provision m e uid u w)) = uuidToID w"
    and "serverList (snd (provision m e uid u w)) = serverList w"
  using assms
  by (simp_all add: provision_unfold Let_def Transaction_frame Transaction_Inl resolveGroup_frame
      split: sum.splits if_splits)

subsection \<open>Trimming happens before every use\<close>

lemma mdValue_Inl: "mdValue m k = Inl x \<Longrightarrow> x = IndexPanic"
  by (simp add: mdValue_def split: option.splits list.splits)

lemma resolveGroup_mdValue_cong:
  assumes "mdValue m' ''server_group_name'' = mdValue m ''server_group_name''"
  shows "resolveGroup m' e uid w = resolveGroup m e uid w"
  unfolding resolveGroup_def assms ..

lemma provision_mdValue_cong:
  assumes "mdValue m' ''server_name'' = mdValue m ''server_name''"
    and "mdValue m' ''server_group_name'' = mdValue m ''server_group_name''"
  shows "provision m' e uid u w = provision m e uid u w"
  unfolding provision_def assms(1) resolveGroup_mdValue_cong [OF assms(2)] ..

lemma Check_mdValue_cong:
  assumes "mdValue m' ''client_secret'' = mdValue m ''client_secret''"
    and "mdValue m' ''client_uuid'' = mdValue m ''client_uuid''"
    and "mdValue m' ''server_name'' = mdValue m ''server_name''"
    and "mdValue m' ''server_group_name'' = mdValue m ''server_group_name''"
    and "ctx_realIP c' = ctx_realIP c"
    and "ctx_md c = Some m" and "ctx_md c' = Some m'"
  shows "Check c' e w = Check c e w"
  unfolding Check_def realIP_def assms(1,2,5,6,7) option.case
    provision_mdValue_cong [OF assms(3,4)] ..

lemma mdValue_trimmed: "mdValue (trimmed m) k = mdValue m k"
  by (simp add: mdValue_def trimmed_def TrimSpace_idem split: option.splits list.splits)

lemma mdValue_absent: "m k = None \<Longrightarrow> mdValue m k = Inr []"
  by (simp add: mdValue_def)

lemma mdValue_whitespace:
  "m k = Some (concat ws # vs) \<Longrightarrow> set ws \<subseteq> set space_seqs \<Longrightarrow> mdValue m k = Inr []"
  by (simp add: mdValue_def TrimSpace_whitespace)

lemma mdValue_first: "m k = Some (v # vs) \<Longrightarrow> mdValue m k = Inr (TrimSpace v)"
  by (simp add: mdValue_def)

lemma mdValue_other: "k' \<noteq> k \<Longrightarrow> mdValue (m(k' := x)) k = mdValue m k"
  by (simp add: mdValue_def)

lemma Check_empty_secret:
  assumes "ctx_md c = Some m" and "mdValue m ''client_secret'' = Inr []"
  shows "Check c e w = (Inl (Unauthenticated ClientAuthFailed), w)"
  using assms by (simp add: Check_def)

lemma Check_unknown_secret:
  assumes "ctx_md c = Some m" and "mdValue m ''client_secret'' = Inr sec" and "sec \<noteq> []"
    and "AgentSecretToUserId w sec = None"
  shows "Check c e w = (Inl (Unauthenticated ClientAuthFailed), BlockIP (realIP c) w)"
  using assms by (simp add: Check_def)

lemma resolveGroup_error_kinds:
  assumes "fst (resolveGroup m e uid w) = Inl x"
  shows "x = IndexPanic \<or> x = Unauthenticated GroupQueryFailed
     \<or> x = Unauthenticated GroupNotExist \<or> x = Unauthenticated GroupNotExistOrNoAccess"
proof (cases "mdValue m ''server_group_name''")
  case (Inl y)
  with assms mdValue_Inl [OF Inl] show ?thesis by (simp add: resolveGroup_def)
next
  case (Inr groupName)
  with assms show ?thesis
    by (simp add: resolveGroup_def Let_def split: sum.splits dberror.splits if_splits)
qed

lemma provision_error_kinds:
  assumes "fst (provision m e uid u w) = Inl x"
  shows "x = IndexPanic \<or> x = Unauthenticated GroupQueryFailed
     \<or> x = Unauthenticated GroupNotExist \<or> x = Unauthenticated GroupNotExistOrNoAccess
     \<or> (\<exists>err. x = Unauthenticated (ErrText err))"
proof (cases "mdValue m ''server_name''")
  case (Inl y)
  with assms mdValue_Inl [OF Inl] show ?thesis by (simp add: provision_unfold)
next
  case (Inr name)
  let ?w1 = "if name = [] then emit EvPetname w else w"
  show ?thesis
  proof (cases "fst (resolveGroup m e uid ?w1)")
    case (Inl y)
    with assms Inr have "x = y" by (simp add: provision_unfold Let_def)
    with resolveGroup_error_kinds [OF Inl] show ?thesis by blast
  next
    case gid: (Inr gid)
    with assms Inr show ?thesis
      by (auto simp: provision_unfold Let_def split: sum.splits)
  qed
qed


lemma provision_not_ClientIDInvalid:
  "fst (provision m e uid u w) \<noteq> Inl (Unauthenticated ClientIDInvalid)"
  using provision_error_kinds [of m e uid u w "Unauthenticated ClientIDInvalid"] by auto

lemma provision_not_ClientAuthFailed:
  "fst (provision m e uid u w) \<noteq> Inl (Unauthenticated ClientAuthFailed)"
  using provision_error_kinds [of m e uid u w "Unauthenticated ClientAuthFailed"] by auto

subsection \<open>The claims about the secret and the UUID\<close>

text \<open>
  C4. When the UUID of an authentication call is already mapped in the Identity Cache,
  the call returns the mapped identity at once: the state it leaves is the state after the
  unblocking of step 2, the trace gains that unblocking and nothing else (no group query,
  no generated name, no transaction), and the storage tables, the Identity Cache and the
  in-memory inventory are unchanged. Here \<open>u\<close> is the trimmed UUID, which passed the length
  check.
\<close>

theorem C4_fast_path:
  assumes "ctx_md c = Some m"
    and "mdValue m ''client_secret'' = Inr sec" and "sec \<noteq> []"
    and "AgentSecretToUserId w sec = Some uid"
    and "mdValue m ''client_uuid'' = Inr u" and "u \<noteq> []" and "length u \<le> 64"
    and "uuidToID w u = Some cid"
  shows "Check c e w = (Inr cid, UnblockIP (realIP c) w)
     \<and> trace (snd (Check c e w)) = trace w @ [EvUnblockIP (realIP c)]
     \<and> servers (snd (Check c e w)) = servers w
     \<and> server_group_servers (snd (Check c e w)) = server_group_servers w
     \<and> server_groups (snd (Check c e w)) = server_groups w
     \<and> uuidToID (snd (Check c e w)) = uuidToID w
     \<and> serverList (snd (Check c e w)) = serverList w"
proof -
  have "Check c e w = (Inr cid, UnblockIP (realIP c) w)"
    using assms by (simp add: Check_known_secret [OF assms(1-4)])
  then show ?thesis by simp
qed

theorem C4_fast_path_witness:
  "Check (demo_ctx [''client_secret'' \<mapsto> ['' s3cret ''], ''client_uuid'' \<mapsto> [''known-1'']])
      demo_env demo_world
     = (Inr 7, UnblockIP ''10.0.0.1'' demo_world)"
proof -
  let ?m = "[''client_secret'' \<mapsto> ['' s3cret ''], ''client_uuid'' \<mapsto> [''known-1'']]"
  have 1: "ctx_md (demo_ctx ?m) = Some ?m" by (simp add: demo_ctx_def)
  have 2: "mdValue ?m ''client_secret'' = Inr ''s3cret''" by code_simp
  have 3: "''s3cret'' \<noteq> []" by simp
  have 4: "AgentSecretToUserId demo_world ''s3cret'' = Some 42" by (simp add: demo_world_def)
  have 5: "mdValue ?m ''client_uuid'' = Inr ''known-1''" by code_simp
  have 6: "''known-1'' \<noteq> []" "length ''known-1'' \<le> 64" by simp_all
  have 7: "uuidToID demo_world ''known-1'' = Some 7" by (simp add: demo_world_def)
  have 8: "realIP (demo_ctx ?m) = ''10.0.0.1''" by (simp add: realIP_def demo_ctx_def)
  from C4_fast_path [OF 1 2 3 4 5 6 7, of demo_env] show ?thesis
    unfolding 8 by simp
qed

text \<open>
  C2, as the code has it. A secret that is absent or empty after trimming is refused with
  an Unauthenticated error and the block list is left as it was (the handler returns at
  line 35, before it reads the caller's address). A non-empty secret that resolves to no
  account is refused with an Unauthenticated error and the caller's address is put on the
  block list. When the secret resolves to an account the caller's address is taken off
  the block list, and whatever happens afterwards (invalid UUID, group failure, failed
  transaction, success) the block list is the former one without that address.
\<close>

theorem C2_block_only_unknown_secret:
  assumes "ctx_md c = Some m" and "mdValue m ''client_secret'' = Inr sec"
  shows "(sec = [] \<longrightarrow> Check c e w = (Inl (Unauthenticated ClientAuthFailed), w))
     \<and> (sec \<noteq> [] \<and> AgentSecretToUserId w sec = None \<longrightarrow>
          Check c e w = (Inl (Unauthenticated ClientAuthFailed), BlockIP (realIP c) w)
          \<and> realIP c \<in> blocked (snd (Check c e w)))
     \<and> (sec \<noteq> [] \<and> AgentSecretToUserId w sec \<noteq> None \<longrightarrow>
          blocked (snd (Check c e w)) = blocked w - {realIP c}
          \<and> fst (Check c e w) \<noteq> Inl (Unauthenticated ClientAuthFailed))"
proof (intro conjI impI)
  assume "sec = []"
  with assms show "Check c e w = (Inl (Unauthenticated ClientAuthFailed), w)"
    by (simp add: Check_empty_secret)
next
  assume a: "sec \<noteq> [] \<and> AgentSecretToUserId w sec = None"
  with assms show "Check c e w = (Inl (Unauthenticated ClientAuthFailed), BlockIP (realIP c) w)"
    by (simp add: Check_unknown_secret)
  then show "realIP c \<in> blocked (snd (Check c e w))" by simp
next
  assume a: "sec \<noteq> [] \<and> AgentSecretToUserId w sec \<noteq> None"
  then obtain uid where uid: "AgentSecretToUserId w sec = Some uid" by auto
  note k = Check_known_secret [OF assms a [THEN conjunct1] uid, of e]
  show "blocked (snd (Check c e w)) = blocked w - {realIP c}"
    unfolding k by (simp add: provision_frame split: sum.splits option.splits)
  show "fst (Check c e w) \<noteq> Inl (Unauthenticated ClientAuthFailed)"
    unfolding k using provision_not_ClientAuthFailed
    by (auto split: sum.splits option.splits dest: mdValue_Inl)
qed

theorem C2_counterexample:
  "fst (Check (demo_ctx Map.empty) demo_env (demo_world\<lparr>blocked := {}\<rparr>))
       = Inl (Unauthenticated ClientAuthFailed)
   \<and> ''10.0.0.1'' \<notin> blocked (snd (Check (demo_ctx Map.empty) demo_env (demo_world\<lparr>blocked := {}\<rparr>)))"
  by (simp add: Check_def demo_ctx_def mdValue_def)

theorem C2_block_only_unknown_secret_witness:
  "Check (demo_ctx [''client_secret'' \<mapsto> [''   '']]) demo_env demo_world
      = (Inl (Unauthenticated ClientAuthFailed), demo_world)
   \<and> Check (demo_ctx [''client_secret'' \<mapsto> [''guess'']]) demo_env (demo_world\<lparr>blocked := {}\<rparr>)
      = (Inl (Unauthenticated ClientAuthFailed), BlockIP ''10.0.0.1'' (demo_world\<lparr>blocked := {}\<rparr>))
   \<and> ''10.0.0.1'' \<in> blocked (snd (Check (demo_ctx [''client_secret'' \<mapsto> [''guess'']]) demo_env
         (demo_world\<lparr>blocked := {}\<rparr>)))
   \<and> blocked (snd (Check (demo_ctx [''client_secret'' \<mapsto> [''s3cret'']]) demo_env demo_world)) = {}"
proof -
  let ?m1 = "[''client_secret'' \<mapsto> [''   '']]"
  let ?m2 = "[''client_secret'' \<mapsto> [''guess'']]"
  let ?m3 = "[''client_secret'' \<mapsto> [''s3cret'']]"
  let ?w = "demo_world\<lparr>blocked := {}\<rparr>"
  have ip: "\<And>m. realIP (demo_ctx m) = ''10.0.0.1''" by (simp add: realIP_def demo_ctx_def)
  have md: "\<And>m. ctx_md (demo_ctx m) = Some m" by (simp add: demo_ctx_def)
  have 1: "mdValue ?m1 ''client_secret'' = Inr []" by code_simp
  have 2: "mdValue ?m2 ''client_secret'' = Inr ''guess''" by code_simp
  have 3: "mdValue ?m3 ''client_secret'' = Inr ''s3cret''" by code_simp
  have u2: "AgentSecretToUserId ?w ''guess'' = None" by (simp add: demo_world_def)
  have u3: "AgentSecretToUserId demo_world ''s3cret'' \<noteq> None" by (simp add: demo_world_def)
  have b: "blocked demo_world - {''10.0.0.1''} = {}" by (simp add: demo_world_def)
  from C2_block_only_unknown_secret [OF md 1, of demo_env demo_world]
    C2_block_only_unknown_secret [OF md 2, of demo_env ?w]
    C2_block_only_unknown_secret [OF md 3, of demo_env demo_world]
    u2 u3 b
  show ?thesis unfolding ip by simp
qed

text \<open>
  C6, as the code has it. The length check is made on the UUID after its surrounding white
  space is trimmed, and counts bytes. For a call with a valid secret: when the trimmed UUID
  is empty or longer than 64 bytes the call is rejected with an Unauthenticated error;
  when it has 1 to 64 bytes the call is never rejected as an invalid identifier and goes on
  to the cache lookup and, for an unknown UUID, to provisioning.
\<close>

theorem C6_uuid_length_after_trim:
  assumes "ctx_md c = Some m"
    and "mdValue m ''client_secret'' = Inr sec" and "sec \<noteq> []"
    and "AgentSecretToUserId w sec = Some uid"
    and "m ''client_uuid'' = Some (v # vs)"
  shows "(TrimSpace v = [] \<or> 64 < length (TrimSpace v) \<longrightarrow>
            Check c e w = (Inl (Unauthenticated ClientIDInvalid), UnblockIP (realIP c) w))
     \<and> (1 \<le> length (TrimSpace v) \<and> length (TrimSpace v) \<le> 64 \<longrightarrow>
            fst (Check c e w) \<noteq> Inl (Unauthenticated ClientIDInvalid)
            \<and> Check c e w =
                (case uuidToID w (TrimSpace v) of
                   Some cid \<Rightarrow> (Inr cid, UnblockIP (realIP c) w)
                 | None \<Rightarrow> provision m e uid (TrimSpace v) (UnblockIP (realIP c) w)))"
proof -
  note k = Check_known_secret [OF assms(1-4), of e]
  have u: "mdValue m ''client_uuid'' = Inr (TrimSpace v)"
    using assms(5) by (rule mdValue_first)
  show ?thesis
    unfolding k u using provision_not_ClientIDInvalid
    by (auto split: option.splits)
qed

theorem C6_counterexample:
  "length '' '' = 1
   \<and> fst (Check (demo_ctx [''client_secret'' \<mapsto> [''s3cret''], ''client_uuid'' \<mapsto> ['' '']])
           demo_env demo_world) = Inl (Unauthenticated ClientIDInvalid)
   \<and> length (CHR '' '' # replicate 64 CHR ''a'') = 65
   \<and> fst (Check (demo_ctx [''client_secret'' \<mapsto> [''s3cret''],
                             ''client_uuid'' \<mapsto> [CHR '' '' # replicate 64 CHR ''a'']])
           demo_env demo_world) = Inr 8"
  by code_simp

theorem C6_uuid_length_after_trim_witness:
  "Check (demo_ctx [''client_secret'' \<mapsto> [''s3cret''], ''client_uuid'' \<mapsto> ['' '']])
      demo_env demo_world
     = (Inl (Unauthenticated ClientIDInvalid), UnblockIP ''10.0.0.1'' demo_world)
   \<and> fst (Check (demo_ctx [''client_secret'' \<mapsto> [''s3cret''],
                             ''client_uuid'' \<mapsto> [replicate 64 CHR ''a'' @ '' '']])
           demo_env demo_world) \<noteq> Inl (Unauthenticated ClientIDInvalid)"
proof -
  let ?m1 = "[''client_secret'' \<mapsto> [''s3cret''], ''client_uuid'' \<mapsto> ['' '']]"
  let ?v = "replicate 64 CHR ''a'' @ '' ''"
  let ?m2 = "[''client_secret'' \<mapsto> [''s3cret''], ''client_uuid'' \<mapsto> [?v]]"
  have ip: "\<And>m. realIP (demo_ctx m) = ''10.0.0.1''" by (simp add: realIP_def demo_ctx_def)
  have md: "\<And>m. ctx_md (demo_ctx m) = Some m" by (simp add: demo_ctx_def)
  have s1: "mdValue ?m1 ''client_secret'' = Inr ''s3cret''" by code_simp
  have s2: "mdValue ?m2 ''client_secret'' = Inr ''s3cret''" by code_simp
  have ne: "''s3cret'' \<noteq> []" by simp
  have a: "AgentSecretToUserId demo_world ''s3cret'' = Some 42" by (simp add: demo_world_def)
  have u1: "?m1 ''client_uuid'' = Some ['' '']" by simp
  have u2: "?m2 ''client_uuid'' = Some [?v]" by simp
  have t1: "TrimSpace '' '' = []" by code_simp
  have t2: "length (TrimSpace ?v) = 64" by code_simp
  have c1: "Check (demo_ctx ?m1) demo_env demo_world
     = (Inl (Unauthenticated ClientIDInvalid), UnblockIP ''10.0.0.1'' demo_world)"
    by (rule C6_uuid_length_after_trim
          [OF md s1 ne a u1, of demo_env, unfolded ip, THEN conjunct1, THEN mp])
       (simp add: t1)
  have c2: "fst (Check (demo_ctx ?m2) demo_env demo_world) \<noteq> Inl (Unauthenticated ClientIDInvalid)"
    by (rule C6_uuid_length_after_trim
          [OF md s2 ne a u2, of demo_env, THEN conjunct2, THEN mp, THEN conjunct1])
       (simp add: t2)
  from c1 c2 show ?thesis by (rule conjI)
qed

text \<open>
  C10. The handler uses the four metadata values only after trimming them: its outcome on
  any metadata is its outcome on the metadata with every value trimmed. A secret made of
  white space only gives the outcome of an absent secret; with a valid secret, a UUID made
  of white space only is rejected as an invalid identifier, and a UUID is rejected as an
  invalid identifier exactly when its trimmed value is empty or longer than 64 bytes.
\<close>

theorem C10_trim_before_use:
  assumes "ctx_md c = Some m"
  shows "Check (c\<lparr>ctx_md := Some (trimmed m)\<rparr>) e w = Check c e w
     \<and> (set ws \<subseteq> set space_seqs \<longrightarrow>
          Check (c\<lparr>ctx_md := Some (m(''client_secret'' \<mapsto> concat ws # vs))\<rparr>) e w
            = Check (c\<lparr>ctx_md := Some (m(''client_secret'' := None))\<rparr>) e w)
     \<and> (mdValue m ''client_secret'' = Inr sec \<and> sec \<noteq> [] \<and> AgentSecretToUserId w sec = Some uid
          \<and> m ''client_uuid'' = Some (concat ws # vs) \<and> set ws \<subseteq> set space_seqs \<longrightarrow>
          Check c e w = (Inl (Unauthenticated ClientIDInvalid), UnblockIP (realIP c) w))
     \<and> (mdValue m ''client_secret'' = Inr sec \<and> sec \<noteq> [] \<and> AgentSecretToUserId w sec = Some uid
          \<and> m ''client_uuid'' = Some (v # vs) \<longrightarrow>
          (fst (Check c e w) = Inl (Unauthenticated ClientIDInvalid))
            = (TrimSpace v = [] \<or> 64 < length (TrimSpace v)))"
proof (intro conjI impI)
  show "Check (c\<lparr>ctx_md := Some (trimmed m)\<rparr>) e w = Check c e w"
    by (rule Check_mdValue_cong [OF _ _ _ _ _ assms]) (simp_all add: mdValue_trimmed)
next
  assume ws: "set ws \<subseteq> set space_seqs"
  let ?m1 = "m(''client_secret'' \<mapsto> concat ws # vs)" and ?m2 = "m(''client_secret'' := None)"
  have "mdValue ?m1 ''client_secret'' = Inr []"
    using ws by (simp add: mdValue_whitespace)
  moreover have "mdValue ?m2 ''client_secret'' = Inr []"
    by (simp add: mdValue_absent)
  ultimately show "Check (c\<lparr>ctx_md := Some ?m1\<rparr>) e w = Check (c\<lparr>ctx_md := Some ?m2\<rparr>) e w"
    by (simp add: Check_empty_secret)
next
  assume a: "mdValue m ''client_secret'' = Inr sec \<and> sec \<noteq> [] \<and> AgentSecretToUserId w sec = Some uid
          \<and> m ''client_uuid'' = Some (concat ws # vs) \<and> set ws \<subseteq> set space_seqs"
  then have "mdValue m ''client_uuid'' = Inr []" by (simp add: mdValue_whitespace)
  with a show "Check c e w = (Inl (Unauthenticated ClientIDInvalid), UnblockIP (realIP c) w)"
    by (simp add: Check_known_secret [OF assms, of sec w uid e])
next
  assume a: "mdValue m ''client_secret'' = Inr sec \<and> sec \<noteq> [] \<and> AgentSecretToUserId w sec = Some uid
          \<and> m ''client_uuid'' = Some (v # vs)"
  then have u: "mdValue m ''client_uuid'' = Inr (TrimSpace v)" by (simp add: mdValue_first)
  from a have k: "Check c e w =
     (case mdValue m ''client_uuid'' of
        Inl x \<Rightarrow> (Inl x, UnblockIP (realIP c) w)
      | Inr u \<Rightarrow>
          if u = [] \<or> 64 < length u
          then (Inl (Unauthenticated ClientIDInvalid), UnblockIP (realIP c) w)
          else (case uuidToID w u of
                  Some cid \<Rightarrow> (Inr cid, UnblockIP (realIP c) w)
                | None \<Rightarrow> provision m e uid u (UnblockIP (realIP c) w)))"
    by (simp add: Check_known_secret [OF assms, of sec w uid e])
  show "(fst (Check c e w) = Inl (Unauthenticated ClientIDInvalid))
            = (TrimSpace v = [] \<or> 64 < length (TrimSpace v))"
    unfolding k u using provision_not_ClientIDInvalid
    by (auto split: option.splits)
qed

theorem C10_trim_before_use_witness:
  "Check ((demo_ctx [''client_secret'' \<mapsto> ['' s3cret ''], ''client_uuid'' \<mapsto> [concat ['' '', [CHR 0x09]]]])
            \<lparr>ctx_md := Some (trimmed [''client_secret'' \<mapsto> ['' s3cret ''],
                                      ''client_uuid'' \<mapsto> [concat ['' '', [CHR 0x09]]]])\<rparr>)
      demo_env demo_world
     = Check (demo_ctx [''client_secret'' \<mapsto> ['' s3cret ''], ''client_uuid'' \<mapsto> [concat ['' '', [CHR 0x09]]]])
         demo_env demo_world
   \<and> Check (demo_ctx [''client_secret'' \<mapsto> ['' s3cret ''], ''client_uuid'' \<mapsto> [concat ['' '', [CHR 0x09]]]])
         demo_env demo_world
     = (Inl (Unauthenticated ClientIDInvalid), UnblockIP ''10.0.0.1'' demo_world)"
proof -
  let ?ws = "['' '', [CHR 0x09]]"
  let ?m = "[''client_secret'' \<mapsto> ['' s3cret ''], ''client_uuid'' \<mapsto> [concat ?ws]]"
  have ip: "realIP (demo_ctx ?m) = ''10.0.0.1''" by (simp add: realIP_def demo_ctx_def)
  have md: "ctx_md (demo_ctx ?m) = Some ?m" by (simp add: demo_ctx_def)
  have s: "mdValue ?m ''client_secret'' = Inr ''s3cret''" by code_simp
  have ne: "''s3cret'' \<noteq> []" by simp
  have a: "AgentSecretToUserId demo_world ''s3cret'' = Some 42" by (simp add: demo_world_def)
  have u: "?m ''client_uuid'' = Some (concat ?ws # [])" by simp
  have ws: "set ?ws \<subseteq> set space_seqs" by (simp add: space_seqs_def)
  note T = C10_trim_before_use [OF md, of demo_env demo_world ?ws "[]" "''s3cret''" 42 "concat ?ws",
      unfolded ip]
  have c1: "Check ((demo_ctx ?m)\<lparr>ctx_md := Some (trimmed ?m)\<rparr>) demo_env demo_world
     = Check (demo_ctx ?m) demo_env demo_world"
    by (rule T [THEN conjunct1])
  have c3: "Check (demo_ctx ?m) demo_env demo_world
     = (Inl (Unauthenticated ClientIDInvalid), UnblockIP ''10.0.0.1'' demo_world)"
    by (rule T [THEN conjunct2, THEN conjunct2, THEN conjunct1, THEN mp])
       (intro conjI s ne a u ws)
  from c1 c3 show ?thesis by (rule conjI)
qed

subsection \<open>Group resolution is scoped to the account\<close>

lemma find_Some_set: "find P xs = Some x \<Longrightarrow> x \<in> set xs \<and> P x"
  by (auto simp: find_Some_iff)

lemma resolveGroup_named:
  assumes "mdValue m ''server_group_name'' = Inr gname" and "gname \<noteq> []"
  shows "resolveGroup m e uid w =
     (let w1 = emit (EvQueryGroup gname (Some uid)) w in
      case First (scoped_query_err e)
              (\<lambda>g. sg_Name g = gname \<and> sg_UserID g = uid) (server_groups w) of
        Inr g \<Rightarrow> (Inr (sg_ID g), w1)
      | Inl (ErrOther x) \<Rightarrow> (Inl (Unauthenticated GroupQueryFailed), w1)
      | Inl ErrRecordNotFound \<Rightarrow>
          if (case UserInfoMap w uid of None \<Rightarrow> False
              | Some userInfo \<Rightarrow> ui_Role userInfo = RoleAdmin)
          then
            let w2 = emit (EvQueryGroup gname None) w1 in
            (case First (unscoped_query_err e) (\<lambda>g. sg_Name g = gname) (server_groups w) of
               Inr g \<Rightarrow> (Inr (sg_ID g), w2)
             | Inl ErrRecordNotFound \<Rightarrow> (Inl (Unauthenticated GroupNotExist), w2)
             | Inl (ErrOther x) \<Rightarrow> (Inl (Unauthenticated GroupQueryFailed), w2))
          else (Inl (Unauthenticated GroupNotExistOrNoAccess), w1))"
  using assms by (simp add: resolveGroup_def)

lemma resolveGroup_unnamed:
  assumes "mdValue m ''server_group_name'' = Inr []"
  shows "resolveGroup m e uid w = (Inr 0, w)"
  using assms by (simp add: resolveGroup_def)

lemma First_ok: "First None P rows = (case find P rows of None \<Rightarrow> Inl ErrRecordNotFound | Some r \<Rightarrow> Inr r)"
  by (simp add: First_def)

lemma First_fault: "First (Some x) P rows = Inl (ErrOther x)"
  by (simp add: First_def)

lemma First_Inr: "First f P rows = Inr r \<Longrightarrow> f = None \<and> find P rows = Some r"
  by (simp add: First_def split: option.splits)

lemma First_NotFound: "First f P rows = Inl ErrRecordNotFound \<Longrightarrow> f = None \<and> find P rows = None"
  by (simp add: First_def split: option.splits)

text \<open>A resolved group is 0 for no name, or the identity of a stored group of that name.\<close>

lemma resolveGroup_Inr:
  assumes "fst (resolveGroup m e uid w) = Inr gid"
  shows "(mdValue m ''server_group_name'' = Inr [] \<and> gid = 0)
     \<or> (\<exists>g\<in>set (server_groups w). mdValue m ''server_group_name'' = Inr (sg_Name g)
           \<and> sg_Name g \<noteq> [] \<and> gid = sg_ID g)"
proof (cases "mdValue m ''server_group_name''")
  case (Inl x)
  with assms show ?thesis by (simp add: resolveGroup_def)
next
  case (Inr gname)
  show ?thesis
  proof (cases "gname = []")
    case True
    with assms Inr show ?thesis by (simp add: resolveGroup_unnamed)
  next
    case False
    from assms have "\<exists>g. gid = sg_ID g \<and>
        (find (\<lambda>g. sg_Name g = gname \<and> sg_UserID g = uid) (server_groups w) = Some g
         \<or> find (\<lambda>g. sg_Name g = gname) (server_groups w) = Some g)"
      unfolding resolveGroup_named [OF Inr False]
      by (auto simp: Let_def split: sum.splits dberror.splits if_splits dest: First_Inr)
    then obtain g where "gid = sg_ID g" and "g \<in> set (server_groups w)" and "sg_Name g = gname"
      by (auto dest: find_Some_set)
    with Inr False show ?thesis by auto
  qed
qed

text \<open>A resolution that succeeded succeeds again, with the same group, when no query fails.\<close>

lemma resolveGroup_again:
  assumes "fst (resolveGroup m e uid w) = Inr gid"
    and "scoped_query_err e2 = None" and "unscoped_query_err e2 = None"
  shows "fst (resolveGroup m e2 uid w) = Inr gid"
proof (cases "mdValue m ''server_group_name''")
  case (Inl x)
  with assms show ?thesis by (simp add: resolveGroup_def)
next
  case (Inr gname)
  show ?thesis
  proof (cases "gname = []")
    case True
    with assms Inr show ?thesis by (simp add: resolveGroup_unnamed)
  next
    case False
    from assms show ?thesis
      unfolding resolveGroup_named [OF Inr False]
      by (auto simp: Let_def First_def split: sum.splits dberror.splits if_splits option.splits)
  qed
qed

text \<open>
  C5. For a non-empty group name \<open>gname\<close> supplied with a first contact, by the account
  \<open>uid\<close>: the lookup is first scoped to \<open>uid\<close> and a group found there is the result;
  when nothing is found there, an administrator repeats the lookup across all accounts
  (and fails with "group does not exist" when that finds nothing either), while any other
  account fails with "group not found or inaccessible" without a second lookup; an
  account that is not an administrator only ever obtains a group it owns; a storage error
  other than not-found, in either lookup, fails with "group query failed"; and a failed
  resolution is the failure of the whole call, which leaves the tables and the Identity
  Cache as they were.
\<close>

theorem C5_group_resolution:
  assumes "mdValue m ''server_group_name'' = Inr gname" and "gname \<noteq> []"
  shows "(scoped_query_err e = None
          \<and> find (\<lambda>g. sg_Name g = gname \<and> sg_UserID g = uid) (server_groups w) = Some g \<longrightarrow>
            resolveGroup m e uid w = (Inr (sg_ID g), emit (EvQueryGroup gname (Some uid)) w))
     \<and> (scoped_query_err e = None
          \<and> find (\<lambda>g. sg_Name g = gname \<and> sg_UserID g = uid) (server_groups w) = None
          \<and> UserInfoMap w uid = Some \<lparr>ui_Role = RoleAdmin\<rparr> \<and> unscoped_query_err e = None \<longrightarrow>
            resolveGroup m e uid w =
              ((case find (\<lambda>g. sg_Name g = gname) (server_groups w) of
                  Some g' \<Rightarrow> Inr (sg_ID g')
                | None \<Rightarrow> Inl (Unauthenticated GroupNotExist)),
               emit (EvQueryGroup gname None) (emit (EvQueryGroup gname (Some uid)) w)))
     \<and> (scoped_query_err e = None
          \<and> find (\<lambda>g. sg_Name g = gname \<and> sg_UserID g = uid) (server_groups w) = None
          \<and> UserInfoMap w uid \<noteq> Some \<lparr>ui_Role = RoleAdmin\<rparr> \<longrightarrow>
            resolveGroup m e uid w =
              (Inl (Unauthenticated GroupNotExistOrNoAccess),
               emit (EvQueryGroup gname (Some uid)) w))
     \<and> (UserInfoMap w uid \<noteq> Some \<lparr>ui_Role = RoleAdmin\<rparr>
          \<and> fst (resolveGroup m e uid w) = Inr gid \<longrightarrow>
            (\<exists>g'\<in>set (server_groups w). sg_ID g' = gid \<and> sg_Name g' = gname \<and> sg_UserID g' = uid))
     \<and> (scoped_query_err e \<noteq> None \<longrightarrow>
            fst (resolveGroup m e uid w) = Inl (Unauthenticated GroupQueryFailed))
     \<and> (scoped_query_err e = None
          \<and> find (\<lambda>g. sg_Name g = gname \<and> sg_UserID g = uid) (server_groups w) = None
          \<and> UserInfoMap w uid = Some \<lparr>ui_Role = RoleAdmin\<rparr> \<and> unscoped_query_err e \<noteq> None \<longrightarrow>
            fst (resolveGroup m e uid w) = Inl (Unauthenticated GroupQueryFailed))
     \<and> (ctx_md c = Some m \<and> mdValue m ''client_secret'' = Inr sec \<and> sec \<noteq> []
          \<and> AgentSecretToUserId w sec = Some uid
          \<and> mdValue m ''client_uuid'' = Inr u \<and> u \<noteq> [] \<and> length u \<le> 64 \<and> uuidToID w u = None
          \<and> mdValue m ''server_name'' = Inr name
          \<and> fst (resolveGroup m e uid w) = Inl x \<longrightarrow>
            fst (Check c e w) = Inl x
            \<and> servers (snd (Check c e w)) = servers w
            \<and> server_group_servers (snd (Check c e w)) = server_group_servers w
            \<and> uuidToID (snd (Check c e w)) = uuidToID w)"
proof -
  note rg = resolveGroup_named [OF assms, of e uid w]
  have admin: "(case UserInfoMap w uid of None \<Rightarrow> False
                | Some userInfo \<Rightarrow> ui_Role userInfo = RoleAdmin)
        \<longleftrightarrow> UserInfoMap w uid = Some \<lparr>ui_Role = RoleAdmin\<rparr>"
    by (cases "UserInfoMap w uid") auto
  have 1: "scoped_query_err e = None
          \<and> find (\<lambda>g. sg_Name g = gname \<and> sg_UserID g = uid) (server_groups w) = Some g \<longrightarrow>
            resolveGroup m e uid w = (Inr (sg_ID g), emit (EvQueryGroup gname (Some uid)) w)"
    unfolding rg by (simp add: First_ok)
  have 2: "scoped_query_err e = None
          \<and> find (\<lambda>g. sg_Name g = gname \<and> sg_UserID g = uid) (server_groups w) = None
          \<and> UserInfoMap w uid = Some \<lparr>ui_Role = RoleAdmin\<rparr> \<and> unscoped_query_err e = None \<longrightarrow>
            resolveGroup m e uid w =
              ((case find (\<lambda>g. sg_Name g = gname) (server_groups w) of
                  Some g' \<Rightarrow> Inr (sg_ID g')
                | None \<Rightarrow> Inl (Unauthenticated GroupNotExist)),
               emit (EvQueryGroup gname None) (emit (EvQueryGroup gname (Some uid)) w))"
    unfolding rg by (simp add: First_ok split: option.splits)
  have 3: "scoped_query_err e = None
          \<and> find (\<lambda>g. sg_Name g = gname \<and> sg_UserID g = uid) (server_groups w) = None
          \<and> UserInfoMap w uid \<noteq> Some \<lparr>ui_Role = RoleAdmin\<rparr> \<longrightarrow>
            resolveGroup m e uid w =
              (Inl (Unauthenticated GroupNotExistOrNoAccess),
               emit (EvQueryGroup gname (Some uid)) w)"
    unfolding rg admin by (simp add: First_ok)
  have 4: "UserInfoMap w uid \<noteq> Some \<lparr>ui_Role = RoleAdmin\<rparr>
          \<and> fst (resolveGroup m e uid w) = Inr gid \<longrightarrow>
            (\<exists>g'\<in>set (server_groups w). sg_ID g' = gid \<and> sg_Name g' = gname \<and> sg_UserID g' = uid)"
  proof
    assume a: "UserInfoMap w uid \<noteq> Some \<lparr>ui_Role = RoleAdmin\<rparr>
          \<and> fst (resolveGroup m e uid w) = Inr gid"
    then have "\<exists>g'. find (\<lambda>g. sg_Name g = gname \<and> sg_UserID g = uid) (server_groups w) = Some g'
        \<and> gid = sg_ID g'"
      unfolding rg admin
      by (auto simp: Let_def split: sum.splits dberror.splits dest: First_Inr)
    then show "\<exists>g'\<in>set (server_groups w). sg_ID g' = gid \<and> sg_Name g' = gname \<and> sg_UserID g' = uid"
      by (auto dest: find_Some_set)
  qed
  have 5: "scoped_query_err e \<noteq> None \<longrightarrow>
            fst (resolveGroup m e uid w) = Inl (Unauthenticated GroupQueryFailed)"
    unfolding rg by (auto simp: First_fault)
  have 6: "scoped_query_err e = None
          \<and> find (\<lambda>g. sg_Name g = gname \<and> sg_UserID g = uid) (server_groups w) = None
          \<and> UserInfoMap w uid = Some \<lparr>ui_Role = RoleAdmin\<rparr> \<and> unscoped_query_err e \<noteq> None \<longrightarrow>
            fst (resolveGroup m e uid w) = Inl (Unauthenticated GroupQueryFailed)"
    unfolding rg by (auto simp: First_ok First_fault)
  have 7: "ctx_md c = Some m \<and> mdValue m ''client_secret'' = Inr sec \<and> sec \<noteq> []
          \<and> AgentSecretToUserId w sec = Some uid
          \<and> mdValue m ''client_uuid'' = Inr u \<and> u \<noteq> [] \<and> length u \<le> 64 \<and> uuidToID w u = None
          \<and> mdValue m ''server_name'' = Inr name
          \<and> fst (resolveGroup m e uid w) = Inl x \<longrightarrow>
            fst (Check c e w) = Inl x
            \<and> servers (snd (Check c e w)) = servers w
            \<and> server_group_servers (snd (Check c e w)) = server_group_servers w
            \<and> uuidToID (snd (Check c e w)) = uuidToID w"
  proof
    assume a: "ctx_md c = Some m \<and> mdValue m ''client_secret'' = Inr sec \<and> sec \<noteq> []
          \<and> AgentSecretToUserId w sec = Some uid
          \<and> mdValue m ''client_uuid'' = Inr u \<and> u \<noteq> [] \<and> length u \<le> 64 \<and> uuidToID w u = None
          \<and> mdValue m ''server_name'' = Inr name
          \<and> fst (resolveGroup m e uid w) = Inl x"
    let ?w0 = "UnblockIP (realIP c) w"
    let ?w1 = "if name = [] then emit EvPetname ?w0 else ?w0"
    from a have k: "Check c e w = provision m e uid u ?w0"
      by (simp add: Check_known_secret [of c m sec w uid e])
    have "fst (resolveGroup m e uid ?w1) = fst (resolveGroup m e uid w)"
      by (rule fst_resolveGroup_cong) simp_all
    with a have r: "fst (resolveGroup m e uid ?w1) = Inl x" by simp
    from a r have f: "fst (provision m e uid u ?w0) = Inl x"
      by (simp add: provision_unfold Let_def)
    from f provision_Inl [OF f] show "fst (Check c e w) = Inl x
            \<and> servers (snd (Check c e w)) = servers w
            \<and> server_group_servers (snd (Check c e w)) = server_group_servers w
            \<and> uuidToID (snd (Check c e w)) = uuidToID w"
      unfolding k by simp
  qed
  from 1 2 3 4 5 6 7 show ?thesis by (intro conjI)
qed

theorem C5_group_resolution_witness:
  "resolveGroup [''server_group_name'' \<mapsto> [''prod'']] demo_env 42 demo_world
     = (Inl (Unauthenticated GroupNotExistOrNoAccess),
        emit (EvQueryGroup ''prod'' (Some 42)) demo_world)
   \<and> resolveGroup [''server_group_name'' \<mapsto> [''web'']] demo_env 1 demo_world
     = (Inr 4, emit (EvQueryGroup ''web'' None) (emit (EvQueryGroup ''web'' (Some 1)) demo_world))
   \<and> resolveGroup [''server_group_name'' \<mapsto> [''web'']] demo_env 42 demo_world
     = (Inr 4, emit (EvQueryGroup ''web'' (Some 42)) demo_world)"
proof -
  let ?mp = "[''server_group_name'' \<mapsto> [''prod'']]"
  let ?mw = "[''server_group_name'' \<mapsto> [''web'']]"
  let ?web = "\<lparr>sg_ID = 4, sg_Name = ''web'', sg_UserID = 42\<rparr>"
  have p: "mdValue ?mp ''server_group_name'' = Inr ''prod''" by code_simp
  have w: "mdValue ?mw ''server_group_name'' = Inr ''web''" by code_simp
  have ne: "''prod'' \<noteq> []" "''web'' \<noteq> []" by simp_all
  have c1: "resolveGroup ?mp demo_env 42 demo_world
     = (Inl (Unauthenticated GroupNotExistOrNoAccess),
        emit (EvQueryGroup ''prod'' (Some 42)) demo_world)"
    by (rule C5_group_resolution [OF p ne(1), of demo_env 42 demo_world,
          THEN conjunct2, THEN conjunct2, THEN conjunct1, THEN mp])
       (simp add: demo_env_def demo_world_def)
  have "resolveGroup ?mw demo_env 1 demo_world
     = ((case find (\<lambda>g. sg_Name g = ''web'') (server_groups demo_world) of
           Some g' \<Rightarrow> Inr (sg_ID g')
         | None \<Rightarrow> Inl (Unauthenticated GroupNotExist)),
        emit (EvQueryGroup ''web'' None) (emit (EvQueryGroup ''web'' (Some 1)) demo_world))"
    by (rule C5_group_resolution [OF w ne(2), of demo_env 1 demo_world,
          THEN conjunct2, THEN conjunct1, THEN mp])
       (simp add: demo_env_def demo_world_def)
  then have c2: "resolveGroup ?mw demo_env 1 demo_world
     = (Inr 4, emit (EvQueryGroup ''web'' None) (emit (EvQueryGroup ''web'' (Some 1)) demo_world))"
    by (simp add: demo_world_def)
  have "resolveGroup ?mw demo_env 42 demo_world
     = (Inr (sg_ID ?web), emit (EvQueryGroup ''web'' (Some 42)) demo_world)"
    by (rule C5_group_resolution [OF w ne(2), of demo_env 42 demo_world ?web,
          THEN conjunct1, THEN mp])
       (simp add: demo_env_def demo_world_def)
  then have c3: "resolveGroup ?mw demo_env 42 demo_world
     = (Inr 4, emit (EvQueryGroup ''web'' (Some 42)) demo_world)"
    by simp
  from c1 c2 c3 show ?thesis by (intro conjI)
qed

subsection \<open>Provisioning is one transaction\<close>

lemma Transaction_ok:
  assumes "create_server e = Inr nid" and "create_member_err e = None" and "commit_err e = None"
  shows "fst (Transaction e s gid uid w) = Inr (s\<lparr>s_ID := nid\<rparr>)"
  using assms by (simp add: Transaction_def Commit_def Let_def)

lemma provision_Inr:
  assumes "fst (provision m e uid u w) = Inr cid"
    and "\<forall>g\<in>set (server_groups w). sg_ID g \<noteq> 0"
  shows "\<exists>name. servers (snd (provision m e uid u w))
            = servers w @ [\<lparr>s_ID = cid, s_UUID = u, s_Name = name, s_UserID = uid\<rparr>]"
    and "mdValue m ''server_group_name'' = Inr [] \<longrightarrow>
           server_group_servers (snd (provision m e uid u w)) = server_group_servers w"
    and "mdValue m ''server_group_name'' \<noteq> Inr [] \<longrightarrow>
           (\<exists>g\<in>set (server_groups w). mdValue m ''server_group_name'' = Inr (sg_Name g)
              \<and> server_group_servers (snd (provision m e uid u w))
                  = server_group_servers w @
                    [\<lparr>sgs_UserID = uid, sgs_ServerGroupId = sg_ID g, sgs_ServerId = cid\<rparr>])"
    and "uuidToID (snd (provision m e uid u w)) = (uuidToID w)(u \<mapsto> cid)"
proof -
  from assms(1) obtain name where name: "mdValue m ''server_name'' = Inr name"
    by (cases "mdValue m ''server_name''") (simp_all add: provision_unfold)
  let ?w1 = "if name = [] then emit EvPetname w else w"
  let ?sn = "if name = [] then petname_Generate e else name"
  let ?rg = "resolveGroup m e uid ?w1"
  from assms(1) name obtain gid where gid: "fst ?rg = Inr gid"
    by (cases "fst ?rg") (simp_all add: provision_unfold Let_def)
  let ?s = "\<lparr>s_ID = 0, s_UUID = u, s_Name = ?sn, s_UserID = uid\<rparr>"
  let ?tx = "Transaction e ?s gid uid (snd ?rg)"
  from assms(1) name gid obtain s' where s': "fst ?tx = Inr s'"
    by (cases "fst ?tx") (simp_all add: provision_unfold Let_def)
  from assms(1) name gid s' have cid: "cid = s_ID s'"
    by (simp add: provision_unfold Let_def)
  have res: "snd (provision m e uid u w) = Update s' u (InitServer s' (emit EvLog (snd ?tx)))"
    using name gid s' by (simp add: provision_unfold Let_def)
  from Transaction_Inr(1) [OF s'] cid have s'_eq: "s' = ?s\<lparr>s_ID := cid\<rparr>" by auto
  have w1: "server_groups ?w1 = server_groups w" "servers ?w1 = servers w"
    "server_group_servers ?w1 = server_group_servers w" "uuidToID ?w1 = uuidToID w"
    by simp_all
  show "\<exists>name. servers (snd (provision m e uid u w))
            = servers w @ [\<lparr>s_ID = cid, s_UUID = u, s_Name = name, s_UserID = uid\<rparr>]"
    unfolding res using Transaction_Inr(2) [OF s'] s'_eq
    by (simp add: resolveGroup_frame w1)
  have sgs: "server_group_servers (snd (provision m e uid u w))
      = server_group_servers w @
         (if 0 < gid
          then [\<lparr>sgs_UserID = uid, sgs_ServerGroupId = gid, sgs_ServerId = cid\<rparr>] else [])"
    unfolding res using Transaction_Inr(3) [OF s'] cid
    by (simp add: resolveGroup_frame w1)
  from resolveGroup_Inr [OF gid]
  have alt: "(mdValue m ''server_group_name'' = Inr [] \<and> gid = 0)
     \<or> (\<exists>g\<in>set (server_groups w). mdValue m ''server_group_name'' = Inr (sg_Name g)
           \<and> sg_Name g \<noteq> [] \<and> gid = sg_ID g)"
    by (simp add: w1)
  show "mdValue m ''server_group_name'' = Inr [] \<longrightarrow>
           server_group_servers (snd (provision m e uid u w)) = server_group_servers w"
    using alt sgs by auto
  show "mdValue m ''server_group_name'' \<noteq> Inr [] \<longrightarrow>
           (\<exists>g\<in>set (server_groups w). mdValue m ''server_group_name'' = Inr (sg_Name g)
              \<and> server_group_servers (snd (provision m e uid u w))
                  = server_group_servers w @
                    [\<lparr>sgs_UserID = uid, sgs_ServerGroupId = sg_ID g, sgs_ServerId = cid\<rparr>])"
  proof
    assume "mdValue m ''server_group_name'' \<noteq> Inr []"
    with alt obtain g where g: "g \<in> set (server_groups w)"
      "mdValue m ''server_group_name'' = Inr (sg_Name g)" "gid = sg_ID g"
      by auto
    with assms(2) have "0 < gid" by (simp add: word_neq_0_conv)
    with sgs g show "\<exists>g\<in>set (server_groups w). mdValue m ''server_group_name'' = Inr (sg_Name g)
              \<and> server_group_servers (snd (provision m e uid u w))
                  = server_group_servers w @
                    [\<lparr>sgs_UserID = uid, sgs_ServerGroupId = sg_ID g, sgs_ServerId = cid\<rparr>]"
      by auto
  qed
  show "uuidToID (snd (provision m e uid u w)) = (uuidToID w)(u \<mapsto> cid)"
    unfolding res using cid by (simp add: Transaction_frame resolveGroup_frame w1)
qed

text \<open>
  C3. For a first contact (valid secret, valid UUID not in the Identity Cache, every stored
  group with a non-zero identity): when the call succeeds the server row and, exactly when
  a group name was given, the membership row of the resolved group have both been
  appended and the UUID is registered; when the call fails neither table has changed and
  the Identity Cache and the inventory are as before, so that the same call enters
  provisioning again. When the name and the group were resolved and one step of the
  transaction fails, the call fails with an Unauthenticated error carrying the error text,
  and a retry that meets no storage failure succeeds.
\<close>

theorem C3_provisioning_atomic:
  assumes "ctx_md c = Some m"
    and "mdValue m ''client_secret'' = Inr sec" and "sec \<noteq> []"
    and "AgentSecretToUserId w sec = Some uid"
    and "mdValue m ''client_uuid'' = Inr u" and "u \<noteq> []" and "length u \<le> 64"
    and "uuidToID w u = None"
    and "\<forall>g\<in>set (server_groups w). sg_ID g \<noteq> 0"
  shows "(fst (Check c e w) = Inr cid \<longrightarrow>
            (\<exists>name. servers (snd (Check c e w))
                = servers w @ [\<lparr>s_ID = cid, s_UUID = u, s_Name = name, s_UserID = uid\<rparr>])
            \<and> (mdValue m ''server_group_name'' = Inr [] \<longrightarrow>
                  server_group_servers (snd (Check c e w)) = server_group_servers w)
            \<and> (mdValue m ''server_group_name'' \<noteq> Inr [] \<longrightarrow>
                  (\<exists>g\<in>set (server_groups w). mdValue m ''server_group_name'' = Inr (sg_Name g)
                     \<and> server_group_servers (snd (Check c e w))
                         = server_group_servers w @
                           [\<lparr>sgs_UserID = uid, sgs_ServerGroupId = sg_ID g, sgs_ServerId = cid\<rparr>]))
            \<and> uuidToID (snd (Check c e w)) = (uuidToID w)(u \<mapsto> cid))
     \<and> (fst (Check c e w) = Inl x \<longrightarrow>
            servers (snd (Check c e w)) = servers w
            \<and> server_group_servers (snd (Check c e w)) = server_group_servers w
            \<and> uuidToID (snd (Check c e w)) = uuidToID w
            \<and> serverList (snd (Check c e w)) = serverList w
            \<and> (\<forall>e2. Check c e2 (snd (Check c e w))
                  = provision m e2 uid u (UnblockIP (realIP c) (snd (Check c e w)))))
     \<and> (mdValue m ''server_name'' = Inr name \<and> fst (resolveGroup m e uid w) = Inr gid
          \<and> ((\<exists>err. create_server e = Inl err) \<or> (0 < gid \<and> create_member_err e \<noteq> None)
               \<or> commit_err e \<noteq> None) \<longrightarrow>
            (\<exists>err. fst (Check c e w) = Inl (Unauthenticated (ErrText err)))
            \<and> (\<forall>e2 nid. scoped_query_err e2 = None \<and> unscoped_query_err e2 = None
                  \<and> create_server e2 = Inr nid \<and> create_member_err e2 = None
                  \<and> commit_err e2 = None \<longrightarrow>
                  fst (Check c e2 (snd (Check c e w))) = Inr nid))"
proof -
  let ?w0 = "UnblockIP (realIP c) w"
  have k: "\<And>e. Check c e w = provision m e uid u ?w0"
    using assms(5-8) by (simp add: Check_known_secret [OF assms(1-4)])
  have g0: "\<forall>g\<in>set (server_groups ?w0). sg_ID g \<noteq> 0" using assms(9) by simp
  have A: "fst (Check c e w) = Inr cid \<longrightarrow>
            (\<exists>name. servers (snd (Check c e w))
                = servers w @ [\<lparr>s_ID = cid, s_UUID = u, s_Name = name, s_UserID = uid\<rparr>])
            \<and> (mdValue m ''server_group_name'' = Inr [] \<longrightarrow>
                  server_group_servers (snd (Check c e w)) = server_group_servers w)
            \<and> (mdValue m ''server_group_name'' \<noteq> Inr [] \<longrightarrow>
                  (\<exists>g\<in>set (server_groups w). mdValue m ''server_group_name'' = Inr (sg_Name g)
                     \<and> server_group_servers (snd (Check c e w))
                         = server_group_servers w @
                           [\<lparr>sgs_UserID = uid, sgs_ServerGroupId = sg_ID g, sgs_ServerId = cid\<rparr>]))
            \<and> uuidToID (snd (Check c e w)) = (uuidToID w)(u \<mapsto> cid)"
  proof
    assume "fst (Check c e w) = Inr cid"
    then have f: "fst (provision m e uid u ?w0) = Inr cid" by (simp add: k)
    from provision_Inr [OF f g0]
    show "(\<exists>name. servers (snd (Check c e w))
                = servers w @ [\<lparr>s_ID = cid, s_UUID = u, s_Name = name, s_UserID = uid\<rparr>])
            \<and> (mdValue m ''server_group_name'' = Inr [] \<longrightarrow>
                  server_group_servers (snd (Check c e w)) = server_group_servers w)
            \<and> (mdValue m ''server_group_name'' \<noteq> Inr [] \<longrightarrow>
                  (\<exists>g\<in>set (server_groups w). mdValue m ''server_group_name'' = Inr (sg_Name g)
                     \<and> server_group_servers (snd (Check c e w))
                         = server_group_servers w @
                           [\<lparr>sgs_UserID = uid, sgs_ServerGroupId = sg_ID g, sgs_ServerId = cid\<rparr>]))
            \<and> uuidToID (snd (Check c e w)) = (uuidToID w)(u \<mapsto> cid)"
      unfolding k by simp
  qed
  have retry: "\<And>e2. uuidToID (snd (Check c e w)) = uuidToID w \<Longrightarrow>
      Check c e2 (snd (Check c e w))
        = provision m e2 uid u (UnblockIP (realIP c) (snd (Check c e w)))"
  proof -
    fix e2 assume same: "uuidToID (snd (Check c e w)) = uuidToID w"
    have a: "AgentSecretToUserId (snd (Check c e w)) sec = Some uid"
      unfolding k using assms(4) by (simp add: provision_frame)
    from same assms(8) have n: "uuidToID (snd (Check c e w)) u = None" by simp
    show "Check c e2 (snd (Check c e w))
        = provision m e2 uid u (UnblockIP (realIP c) (snd (Check c e w)))"
      using assms(5-7) n by (simp add: Check_known_secret [OF assms(1-3) a])
  qed
  have B: "fst (Check c e w) = Inl x \<longrightarrow>
            servers (snd (Check c e w)) = servers w
            \<and> server_group_servers (snd (Check c e w)) = server_group_servers w
            \<and> uuidToID (snd (Check c e w)) = uuidToID w
            \<and> serverList (snd (Check c e w)) = serverList w
            \<and> (\<forall>e2. Check c e2 (snd (Check c e w))
                  = provision m e2 uid u (UnblockIP (realIP c) (snd (Check c e w))))"
  proof
    assume "fst (Check c e w) = Inl x"
    then have f: "fst (provision m e uid u ?w0) = Inl x" by (simp add: k)
    from provision_Inl [OF f]
    have fr: "servers (snd (Check c e w)) = servers w"
      "server_group_servers (snd (Check c e w)) = server_group_servers w"
      "uuidToID (snd (Check c e w)) = uuidToID w"
      "serverList (snd (Check c e w)) = serverList w"
      unfolding k by simp_all
    with retry show "servers (snd (Check c e w)) = servers w
            \<and> server_group_servers (snd (Check c e w)) = server_group_servers w
            \<and> uuidToID (snd (Check c e w)) = uuidToID w
            \<and> serverList (snd (Check c e w)) = serverList w
            \<and> (\<forall>e2. Check c e2 (snd (Check c e w))
                  = provision m e2 uid u (UnblockIP (realIP c) (snd (Check c e w))))"
      by simp
  qed
  have C: "mdValue m ''server_name'' = Inr name \<and> fst (resolveGroup m e uid w) = Inr gid
          \<and> ((\<exists>err. create_server e = Inl err) \<or> (0 < gid \<and> create_member_err e \<noteq> None)
               \<or> commit_err e \<noteq> None) \<longrightarrow>
            (\<exists>err. fst (Check c e w) = Inl (Unauthenticated (ErrText err)))
            \<and> (\<forall>e2 nid. scoped_query_err e2 = None \<and> unscoped_query_err e2 = None
                  \<and> create_server e2 = Inr nid \<and> create_member_err e2 = None
                  \<and> commit_err e2 = None \<longrightarrow>
                  fst (Check c e2 (snd (Check c e w))) = Inr nid)"
  proof
    assume a: "mdValue m ''server_name'' = Inr name \<and> fst (resolveGroup m e uid w) = Inr gid
          \<and> ((\<exists>err. create_server e = Inl err) \<or> (0 < gid \<and> create_member_err e \<noteq> None)
               \<or> commit_err e \<noteq> None)"
    let ?sn = "if name = [] then petname_Generate e else name"
    let ?w1 = "if name = [] then emit EvPetname ?w0 else ?w0"
    let ?s = "\<lparr>s_ID = 0, s_UUID = u, s_Name = ?sn, s_UserID = uid\<rparr>"
    have rg: "fst (resolveGroup m e uid ?w1) = Inr gid"
      using a fst_resolveGroup_cong [of ?w1 w m e uid] by simp
    from a Transaction_fails_iff [of e ?s gid uid "snd (resolveGroup m e uid ?w1)"]
    obtain err where err: "fst (Transaction e ?s gid uid (snd (resolveGroup m e uid ?w1))) = Inl err"
      by blast
    from a rg err have f: "fst (Check c e w) = Inl (Unauthenticated (ErrText err))"
      unfolding k by (simp add: provision_unfold Let_def)
    then have f': "fst (provision m e uid u ?w0) = Inl (Unauthenticated (ErrText err))"
      by (simp add: k)
    have same: "uuidToID (snd (Check c e w)) = uuidToID w"
      using provision_Inl(3) [OF f'] unfolding k by simp
    have again: "fst (Check c e2 (snd (Check c e w))) = Inr nid"
      if e2: "scoped_query_err e2 = None \<and> unscoped_query_err e2 = None
                  \<and> create_server e2 = Inr nid \<and> create_member_err e2 = None
                  \<and> commit_err e2 = None" for e2 nid
    proof -
      let ?v = "snd (Check c e w)"
      let ?v0 = "UnblockIP (realIP c) ?v"
      let ?v1 = "if name = [] then emit EvPetname ?v0 else ?v0"
      let ?s2 = "\<lparr>s_ID = 0, s_UUID = u,
                  s_Name = (if name = [] then petname_Generate e2 else name), s_UserID = uid\<rparr>"
      have sg: "server_groups ?v1 = server_groups w" "UserInfoMap ?v1 = UserInfoMap w"
        unfolding k by (simp_all add: provision_frame)
      from a have "fst (resolveGroup m e2 uid w) = Inr gid"
        using e2 by (intro resolveGroup_again [of m e uid w gid e2]) simp_all
      with fst_resolveGroup_cong [OF sg, of m e2 uid]
      have rg2: "fst (resolveGroup m e2 uid ?v1) = Inr gid" by simp
      have tx2: "fst (Transaction e2 ?s2 gid uid (snd (resolveGroup m e2 uid ?v1)))
          = Inr (?s2\<lparr>s_ID := nid\<rparr>)"
        using e2 by (intro Transaction_ok) simp_all
      from a rg2 tx2 show ?thesis
        unfolding retry [OF same, of e2] by (simp add: provision_unfold Let_def)
    qed
    from f again show "(\<exists>err. fst (Check c e w) = Inl (Unauthenticated (ErrText err)))
            \<and> (\<forall>e2 nid. scoped_query_err e2 = None \<and> unscoped_query_err e2 = None
                  \<and> create_server e2 = Inr nid \<and> create_member_err e2 = None
                  \<and> commit_err e2 = None \<longrightarrow>
                  fst (Check c e2 (snd (Check c e w))) = Inr nid)"
      by blast
  qed
  from A B C show ?thesis by (intro conjI)
qed

theorem C3_provisioning_atomic_witness:
  "servers (snd (Check (demo_ctx [''client_secret'' \<mapsto> [''s3cret''], ''client_uuid'' \<mapsto> [''abc-123''],
                                  ''server_group_name'' \<mapsto> [''web'']])
                   (demo_env\<lparr>commit_err := Some ''disk full''\<rparr>) demo_world))
     = servers demo_world
   \<and> server_group_servers
        (snd (Check (demo_ctx [''client_secret'' \<mapsto> [''s3cret''], ''client_uuid'' \<mapsto> [''abc-123''],
                                ''server_group_name'' \<mapsto> [''web'']])
                 (demo_env\<lparr>commit_err := Some ''disk full''\<rparr>) demo_world))
     = server_group_servers demo_world
   \<and> uuidToID
        (snd (Check (demo_ctx [''client_secret'' \<mapsto> [''s3cret''], ''client_uuid'' \<mapsto> [''abc-123''],
                                ''server_group_name'' \<mapsto> [''web'']])
                 (demo_env\<lparr>commit_err := Some ''disk full''\<rparr>) demo_world))
     = uuidToID demo_world
   \<and> fst (Check (demo_ctx [''client_secret'' \<mapsto> [''s3cret''], ''client_uuid'' \<mapsto> [''abc-123''],
                             ''server_group_name'' \<mapsto> [''web'']])
           demo_env
           (snd (Check (demo_ctx [''client_secret'' \<mapsto> [''s3cret''], ''client_uuid'' \<mapsto> [''abc-123''],
                                   ''server_group_name'' \<mapsto> [''web'']])
                    (demo_env\<lparr>commit_err := Some ''disk full''\<rparr>) demo_world)))
     = Inr 8
   \<and> uuidToID
        (snd (Check (demo_ctx [''client_secret'' \<mapsto> [''s3cret''], ''client_uuid'' \<mapsto> [''abc-123''],
                                ''server_group_name'' \<mapsto> [''web'']])
                 demo_env demo_world))
     = (uuidToID demo_world)(''abc-123'' \<mapsto> 8)"
proof -
  let ?m = "[''client_secret'' \<mapsto> [''s3cret''], ''client_uuid'' \<mapsto> [''abc-123''],
             ''server_group_name'' \<mapsto> [''web'']]"
  let ?c = "demo_ctx ?m"
  let ?ef = "demo_env\<lparr>commit_err := Some ''disk full''\<rparr>"
  have md: "ctx_md ?c = Some ?m" by (simp add: demo_ctx_def)
  have s: "mdValue ?m ''client_secret'' = Inr ''s3cret''" by code_simp
  have ne: "''s3cret'' \<noteq> []" by simp
  have a: "AgentSecretToUserId demo_world ''s3cret'' = Some 42" by (simp add: demo_world_def)
  have u: "mdValue ?m ''client_uuid'' = Inr ''abc-123''" by code_simp
  have ul: "''abc-123'' \<noteq> []" "length ''abc-123'' \<le> 64" by simp_all
  have un: "uuidToID demo_world ''abc-123'' = None" by (simp add: demo_world_def)
  have gz: "\<forall>g\<in>set (server_groups demo_world). sg_ID g \<noteq> 0" by (simp add: demo_world_def)
  have nm: "mdValue ?m ''server_name'' = Inr []" by code_simp
  have rg: "fst (resolveGroup ?m ?ef 42 demo_world) = Inr 4" by code_simp
  have fail: "fst (Check ?c ?ef demo_world) = Inl (Unauthenticated (ErrText ''disk full''))"
    by code_simp
  have ok: "fst (Check ?c demo_env demo_world) = Inr 8" by code_simp
  note T = C3_provisioning_atomic [OF md s ne a u ul un gz]
  note B = T [of ?ef _ "Unauthenticated (ErrText ''disk full'')", THEN conjunct2, THEN conjunct1,
      THEN mp, OF fail]
  have ante: "mdValue ?m ''server_name'' = Inr [] \<and> fst (resolveGroup ?m ?ef 42 demo_world) = Inr 4
      \<and> ((\<exists>err. create_server ?ef = Inl err) \<or> ((0::uint64) < 4 \<and> create_member_err ?ef \<noteq> None)
           \<or> commit_err ?ef \<noteq> None)"
    using nm rg by simp
  have e2: "scoped_query_err demo_env = None \<and> unscoped_query_err demo_env = None
      \<and> create_server demo_env = Inr 8 \<and> create_member_err demo_env = None
      \<and> commit_err demo_env = None"
    by (simp add: demo_env_def)
  note C0 = T [of ?ef _ _ "[]" 4, THEN conjunct2, THEN conjunct2, THEN mp, OF ante, THEN conjunct2]
  from C0 e2 have C: "fst (Check ?c demo_env (snd (Check ?c ?ef demo_world))) = Inr 8"
    by blast
  note A = T [of demo_env 8, THEN conjunct1, THEN mp, OF ok]
  from B C A show ?thesis by blast
qed

section \<open>Properties of the fallback lookup\<close>

lemma Since_le:
  "Since g t \<le> cacheExpiry \<longleftrightarrow> clock g - t \<le> cacheExpiry"
  by (auto simp: Since_def Sub_def cacheExpiry_def Hour_def Second_def maxDuration_def
      minDuration_def)

lemma getCachedResult_fresh:
  assumes "ipCache g ip = Some entry" and "clock g - timestamp entry \<le> cacheExpiry"
  shows "getCachedResult g ip = (countryCode entry, asn entry, True)"
  using assms Since_le [of g "timestamp entry"] by (simp add: getCachedResult_def)

lemma getCachedResult_stale:
  assumes "ipCache g ip = Some entry" and "cacheExpiry < clock g - timestamp entry"
  shows "getCachedResult g ip = ([], [], False)"
  using assms Since_le [of g "timestamp entry"] by (simp add: getCachedResult_def)

lemma checkRateLimit_frame:
  "ipCache (checkRateLimit e g) = ipCache g"
  by (simp add: checkRateLimit_def Sleep_def Let_def)

text \<open>
  C7. For an address with a stored entry: when the entry is at most 24 hours old (so also
  when it is less than 24 hours old) the query returns the cached country code and
  organization and leaves the state as it was: no sleep, no outbound request, the
  rate-limit timestamp untouched. When the entry is more than 24 hours old the cache
  reports a miss and the query goes through the rate limiter to an outbound request; a
  successful answer replaces the entry, stamped with the time of the answer.
\<close>

theorem C7_cache_ttl:
  assumes "ipCache g ip = Some entry"
  shows "(clock g - timestamp entry \<le> cacheExpiry \<longrightarrow>
            queryIPAPI e (Some ip) g
              = (Inr (cachedResponse (countryCode entry) (asn entry) ip), g)
            \<and> CountryCode (cachedResponse (countryCode entry) (asn entry) ip) = countryCode entry
            \<and> AS (cachedResponse (countryCode entry) (asn entry) ip) = asn entry)
     \<and> (cacheExpiry < clock g - timestamp entry \<longrightarrow>
            getCachedResult g ip = ([], [], False)
            \<and> geo_trace (snd (queryIPAPI e (Some ip) g))
                = geo_trace (checkRateLimit e g)
                  @ [GeoHttpGet (clock (checkRateLimit e g)) (apiBaseURL @ ip)]
            \<and> (response e = Response 200 (Some r) \<and> Status r = ''success'' \<longrightarrow>
                  fst (queryIPAPI e (Some ip) g) = Inr r
                  \<and> ipCache (snd (queryIPAPI e (Some ip) g)) ip
                      = Some \<lparr>countryCode = CountryCode r, asn = orgOf r,
                              timestamp = clock (checkRateLimit e g) + int (latency e)\<rparr>))"
proof (intro conjI impI)
  assume fresh: "clock g - timestamp entry \<le> cacheExpiry"
  show "queryIPAPI e (Some ip) g = (Inr (cachedResponse (countryCode entry) (asn entry) ip), g)"
    by (simp add: queryIPAPI_def getCachedResult_fresh [OF assms fresh])
  show "CountryCode (cachedResponse (countryCode entry) (asn entry) ip) = countryCode entry"
    by (simp add: cachedResponse_def)
  show "AS (cachedResponse (countryCode entry) (asn entry) ip) = asn entry"
    by (simp add: cachedResponse_def)
next
  assume stale: "cacheExpiry < clock g - timestamp entry"
  note miss = getCachedResult_stale [OF assms stale]
  show "getCachedResult g ip = ([], [], False)" by (rule miss)
  show "geo_trace (snd (queryIPAPI e (Some ip) g))
                = geo_trace (checkRateLimit e g)
                  @ [GeoHttpGet (clock (checkRateLimit e g)) (apiBaseURL @ ip)]"
    by (simp add: queryIPAPI_def miss Let_def httpGet_def setCachedResult_def
        split: http_result.splits option.splits)
  assume ok: "response e = Response 200 (Some r) \<and> Status r = ''success''"
  then show "fst (queryIPAPI e (Some ip) g) = Inr r"
    by (simp add: queryIPAPI_def miss Let_def)
  from ok show "ipCache (snd (queryIPAPI e (Some ip) g)) ip
                      = Some \<lparr>countryCode = CountryCode r, asn = orgOf r,
                              timestamp = clock (checkRateLimit e g) + int (latency e)\<rparr>"
    by (simp add: queryIPAPI_def miss Let_def httpGet_def setCachedResult_def)
qed

theorem C7_cache_ttl_witness:
  "queryIPAPI demo_geo_env (Some ''8.8.8.8'') (demo_geo\<lparr>clock := 1700000000 * Second + 23 * Hour\<rparr>)
     = (Inr (cachedResponse ''US'' ''Google LLC'' ''8.8.8.8''),
        demo_geo\<lparr>clock := 1700000000 * Second + 23 * Hour\<rparr>)
   \<and> getCachedResult (demo_geo\<lparr>clock := 1700000000 * Second + 24 * Hour + Second\<rparr>) ''8.8.8.8''
     = ([], [], False)
   \<and> fst (queryIPAPI demo_geo_env (Some ''8.8.8.8'')
            (demo_geo\<lparr>clock := 1700000000 * Second + 24 * Hour + Second\<rparr>))
     = Inr (cachedResponse ''AU'' ''AS13335 Cloudflare, Inc.'' ''1.1.1.1'')"
proof -
  let ?entry = "\<lparr>countryCode = ''US'', asn = ''Google LLC'', timestamp = 1700000000 * Second\<rparr>"
  let ?g1 = "demo_geo\<lparr>clock := 1700000000 * Second + 23 * Hour\<rparr>"
  let ?g2 = "demo_geo\<lparr>clock := 1700000000 * Second + 24 * Hour + Second\<rparr>"
  let ?r = "cachedResponse ''AU'' ''AS13335 Cloudflare, Inc.'' ''1.1.1.1''"
  have e1: "ipCache ?g1 ''8.8.8.8'' = Some ?entry" by (simp add: demo_geo_def)
  have e2: "ipCache ?g2 ''8.8.8.8'' = Some ?entry" by (simp add: demo_geo_def)
  have fresh: "clock ?g1 - timestamp ?entry \<le> cacheExpiry"
    by (simp add: cacheExpiry_def Hour_def Second_def)
  have stale: "cacheExpiry < clock ?g2 - timestamp ?entry"
    by (simp add: cacheExpiry_def Hour_def Second_def)
  have ok: "response demo_geo_env = Response 200 (Some ?r) \<and> Status ?r = ''success''"
    by (simp add: demo_geo_env_def cachedResponse_def)
  note A = C7_cache_ttl [OF e1, of demo_geo_env, THEN conjunct1, THEN mp, OF fresh]
  note B = C7_cache_ttl [OF e2, of demo_geo_env ?r, THEN conjunct2, THEN mp, OF stale]
  from A have a: "queryIPAPI demo_geo_env (Some ''8.8.8.8'') ?g1
     = (Inr (cachedResponse ''US'' ''Google LLC'' ''8.8.8.8''), ?g1)"
    by simp
  from B have b: "getCachedResult ?g2 ''8.8.8.8'' = ([], [], False)" by (rule conjunct1)
  from B [THEN conjunct2, THEN conjunct2, THEN mp, OF ok]
  have c: "fst (queryIPAPI demo_geo_env (Some ''8.8.8.8'') ?g2) = Inr ?r" by (rule conjunct1)
  from a b c show ?thesis by (intro conjI)
qed

text \<open>
  The exported \<open>LookupASN\<close> splits the \<open>AS\<close> field of the response at its first space.
  On a cache hit that field already holds the organization name, which is split again.
\<close>

lemma LookupASN_cache_hit_splits_again:
  "fst (LookupASN demo_geo_env (Some ''8.8.8.8'') demo_geo) = Inr ''LLC''"
proof -
  let ?entry = "\<lparr>countryCode = ''US'', asn = ''Google LLC'', timestamp = 1700000000 * Second\<rparr>"
  have e: "ipCache demo_geo ''8.8.8.8'' = Some ?entry" by (simp add: demo_geo_def)
  have f: "clock demo_geo - timestamp ?entry \<le> cacheExpiry"
    by (simp add: demo_geo_def cacheExpiry_def Hour_def Second_def)
  have q: "queryIPAPI demo_geo_env (Some ''8.8.8.8'') demo_geo
      = (Inr (cachedResponse ''US'' ''Google LLC'' ''8.8.8.8''), demo_geo)"
    using getCachedResult_fresh [OF e f] by (simp add: queryIPAPI_def)
  show ?thesis
    by (simp add: LookupASN_def q cachedResponse_def afterFirstSpace_def)
qed

subsection \<open>The rate limiter\<close>


lemma requestTimes_append:
  "requestTimes (xs @ ys) = requestTimes xs @ requestTimes ys"
  by (induction xs rule: requestTimes.induct) simp_all

lemma spaced_snoc:
  "spaced d ts \<Longrightarrow> list_all (\<lambda>t. t + d \<le> u) ts \<Longrightarrow> spaced d (ts @ [u])"
  by (induction d ts rule: spaced.induct) simp_all

lemma int64_id: "- (2 ^ 63) \<le> x \<Longrightarrow> x < 2 ^ 63 \<Longrightarrow> int64 x = x"
  by (simp add: int64_def)

lemma checkRateLimit_sleep:
  assumes "lastRequestTime g \<le> clock g"
    and "clock g - lastRequestTime g < minRequestInterval"
  shows "checkRateLimit e g =
     g\<lparr>clock := lastRequestTime g + minRequestInterval + int (overshoot e),
       geo_trace := geo_trace g @ [GeoSleep (minRequestInterval - (clock g - lastRequestTime g))],
       lastRequestTime := lastRequestTime g + minRequestInterval + int (overshoot e)\<rparr>"
proof -
  let ?el = "clock g - lastRequestTime g"
  from assms have el: "0 \<le> ?el" "?el < 2000000000"
    by (simp_all add: minRequestInterval_def Second_def)
  then have s: "Since g (lastRequestTime g) = ?el"
    by (simp add: Since_def Sub_def maxDuration_def minDuration_def)
  from el have i: "int64 (minRequestInterval - ?el) = minRequestInterval - ?el"
    by (intro int64_id) (simp_all add: minRequestInterval_def Second_def)
  from el have p: "max 0 (minRequestInterval - ?el) = minRequestInterval - ?el"
    by (simp add: minRequestInterval_def Second_def)
  show ?thesis
    using assms(2) by (simp add: checkRateLimit_def Let_def s i p Sleep_def)
qed

lemma checkRateLimit_nosleep:
  assumes "minRequestInterval \<le> clock g - lastRequestTime g"
  shows "checkRateLimit e g = g\<lparr>lastRequestTime := clock g\<rparr>"
proof -
  from assms have "\<not> Since g (lastRequestTime g) < minRequestInterval"
    by (simp add: Since_def Sub_def maxDuration_def minDuration_def minRequestInterval_def
        Second_def)
  then show ?thesis by (simp add: checkRateLimit_def Let_def)
qed

end
